theory Spec2Isabelle
  imports Complex_Main "HOL-Library.Word"
begin

unbundle bit_operations_syntax

section \<open>Data model of vtkDataSet.cxx\<close>

text \<open>
  The embedding follows \<^verbatim>\<open>Common/DataModel/vtkDataSet.cxx\<close>. A \<^verbatim>\<open>double\<close> is a
  \<open>real\<close> (rounding and NaN are outside the model), a \<^verbatim>\<open>vtkIdType\<close> index or count is a
  \<open>nat\<close>, an \<^verbatim>\<open>int\<close> of an extent is an \<open>int\<close> (signed overflow is undefined in the
  source and not modelled), an \<^verbatim>\<open>unsigned char\<close> is an \<open>8 word\<close>, a modification time
  \<^verbatim>\<open>vtkMTimeType\<close> is a \<open>nat\<close>. Arrays are objects in an explicit store, since the data
  set caches raw pointers to them and the ghost classifier updates them in place.
\<close>

type_synonym addr = nat
type_synonym uchar = "8 word"
type_synonym vtkMTimeType = nat

datatype vtkArray =
    UnsignedCharArray "uchar list"
  | DoubleArray "real list"

fun GetNumberOfTuples :: "vtkArray \<Rightarrow> nat" where
  "GetNumberOfTuples (UnsignedCharArray vs) = length vs"
| "GetNumberOfTuples (DoubleArray vs) = length vs"

text \<open>
  The store gives every address an array object; the addresses below \<open>NextAddr\<close> of a
  data set are the allocated ones. A \<^verbatim>\<open>vtkUnsignedCharArray*\<close> is only ever obtained
  through a down cast, so the values read through one are those of an unsigned-char
  array; \<open>UCharValues\<close> has no value to offer for an object of another type.
\<close>

type_synonym store = "addr \<Rightarrow> vtkArray"

fun UCharValues :: "vtkArray \<Rightarrow> uchar list" where
  "UCharValues (UnsignedCharArray vs) = vs"
| "UCharValues (DoubleArray vs) = []"

text \<open>
  Modelled from the spec: the attribute containers \<^verbatim>\<open>vtkPointData\<close> and
  \<^verbatim>\<open>vtkCellData\<close> (\<^verbatim>\<open>vtkFieldData.cxx\<close>, \<^verbatim>\<open>vtkDataSetAttributes.cxx\<close>) are not among
  the sources. The spec describes an AttributeSet as a mapping from array name to array
  with a clock of its own that advances on every add, remove or modify, a designated
  active scalar array that may be absent, and a ghost mask for range queries. An array
  without a name (which \<^verbatim>\<open>CheckAttributes\<close> caters for) has the name \<open>None\<close>.
\<close>

record vtkFieldData =
  Arrays :: "(string option \<times> addr) list"
  Scalars :: "addr option"
  GhostsToSkip :: uchar
  FieldMTime :: vtkMTimeType

text \<open>
  Modelled from the spec: \<^verbatim>\<open>vtkDataSetAttributes::GhostArrayName()\<close> is the reserved
  name of the ghost-status array; its text is declared outside the sources.
\<close>

definition GhostArrayName :: string where
  "GhostArrayName = ''vtkGhostType''"

text \<open>
  Modelled from the spec: the ghost-status bits \<^verbatim>\<open>vtkDataSetAttributes::DUPLICATEPOINT\<close>
  and \<^verbatim>\<open>DUPLICATECELL\<close> are enum constants declared outside the sources; the spec calls
  each a bit of the per-element status field. Both are the lowest bit.
\<close>

definition DUPLICATEPOINT :: uchar where
  "DUPLICATEPOINT = 1"

definition DUPLICATECELL :: uchar where
  "DUPLICATECELL = 1"

text \<open>\<^verbatim>\<open>vtkFieldData::GetArray(name)\<close>: the first array stored under the name.\<close>

fun GetArray :: "(string option \<times> addr) list \<Rightarrow> string \<Rightarrow> addr option" where
  "GetArray [] name = None"
| "GetArray ((n, a) # rest) name = (if n = Some name then Some a else GetArray rest name)"

text \<open>
  \<^verbatim>\<open>vtkArrayDownCast<vtkUnsignedCharArray>\<close>: the pointer when it is one to an
  unsigned-char array, the null pointer otherwise.
\<close>

definition DownCastUChar :: "store \<Rightarrow> addr option \<Rightarrow> addr option" where
  "DownCastUChar h p =
     (case p of
        None \<Rightarrow> None
      | Some a \<Rightarrow> (case h a of UnsignedCharArray vs \<Rightarrow> Some a | DoubleArray vs \<Rightarrow> None))"

definition GetGhostArray :: "store \<Rightarrow> vtkFieldData \<Rightarrow> addr option" where
  "GetGhostArray h fd = DownCastUChar h (GetArray (Arrays fd) GhostArrayName)"

text \<open>
  The extent type of \<^verbatim>\<open>vtkDataObject::GetExtentType()\<close>; \<^verbatim>\<open>VTK_3D_EXTENT\<close> marks the
  structured data sets.
\<close>

datatype ExtentType = VTK_PIECES_EXTENT | VTK_3D_EXTENT | VTK_TIME_EXTENT

text \<open>
  The data set together with the part of the world its methods read and write: the
  store of array objects, the next free address, and the global counter all time
  stamps are drawn from. \<open>Points\<close>, \<open>NumberOfCells\<close>, \<open>ObjectMTime\<close>, \<open>ExtentKind\<close> and
  \<open>DATA_EXTENT\<close> stand for the pure virtual accessors \<^verbatim>\<open>GetPoint\<close>,
  \<^verbatim>\<open>GetNumberOfPoints\<close>, \<^verbatim>\<open>GetNumberOfCells\<close>, for \<^verbatim>\<open>vtkDataObject::GetMTime\<close>,
  \<^verbatim>\<open>GetExtentType\<close> and for the extent kept in \<^verbatim>\<open>Information\<close>.
\<close>

record vtkDataSet =
  Heap :: store
  NextAddr :: addr
  GlobalTime :: vtkMTimeType
  ObjectMTime :: vtkMTimeType
  ExtentKind :: ExtentType
  DATA_EXTENT :: "int list"
  Points :: "(real \<times> real \<times> real) list"
  NumberOfCells :: nat
  PointData :: vtkFieldData
  CellData :: vtkFieldData
  PointGhostArray :: "addr option"
  PointGhostArrayCached :: bool
  CellGhostArray :: "addr option"
  CellGhostArrayCached :: bool
  Bounds :: "real list"
  ComputeTime :: vtkMTimeType
  ScalarRange :: "real \<times> real"
  ScalarRangeComputeTime :: vtkMTimeType

definition GetNumberOfPoints :: "vtkDataSet \<Rightarrow> nat" where
  "GetNumberOfPoints ds = length (Points ds)"

text \<open>
  What the methods take from outside the file: the way \<^verbatim>\<open>vtkSMPTools::For\<close> hands the
  index range \<open>[0, n)\<close> to its workers (for each worker the chunks \<open>(begin, end)\<close> it is
  given, in order), the range query \<^verbatim>\<open>vtkDataArray::GetRange\<close> with its ghost array and
  ghost mask, and the two macros \<^verbatim>\<open>VTK_DOUBLE_MAX\<close> and \<^verbatim>\<open>VTK_DOUBLE_MIN\<close>.
\<close>

record externals =
  SMPFor :: "nat \<Rightarrow> (nat \<times> nat) list list"
  GetRange :: "store \<Rightarrow> addr \<Rightarrow> addr option \<Rightarrow> uchar \<Rightarrow> real \<times> real"
  VTK_DOUBLE_MAX :: real
  VTK_DOUBLE_MIN :: real

section \<open>Modification times\<close>

text \<open>\<^verbatim>\<open>vtkDataSet::GetMTime\<close>: the latest of the object's, the point data's and the cell data's time.\<close>

definition GetMTime :: "vtkDataSet \<Rightarrow> vtkMTimeType" where
  "GetMTime ds =
     (let result = ObjectMTime ds;
          mtime = FieldMTime (PointData ds);
          result = (if mtime > result then mtime else result);
          mtime = FieldMTime (CellData ds)
      in (if mtime > result then mtime else result))"

text \<open>
  Modelled from the spec: \<^verbatim>\<open>vtkTimeStamp::Modified()\<close> (\<^verbatim>\<open>vtkTimeStamp.cxx\<close>) is not among
  the sources. The spec's ModificationClock is a monotonically increasing version
  counter; a stamp that is modified takes the next value of the global counter. The
  call has no argument, so the value cannot depend on the data set.
\<close>

definition TimeStampModified :: "vtkMTimeType \<Rightarrow> vtkMTimeType" where
  "TimeStampModified g = g + 1"

section \<open>Scalar range\<close>

text \<open>\<^verbatim>\<open>vtkDataSet::ComputeScalarRange\<close>\<close>

definition ComputeScalarRange :: "externals \<Rightarrow> vtkDataSet \<Rightarrow> vtkDataSet" where
  "ComputeScalarRange ex ds =
     (if GetMTime ds > ScalarRangeComputeTime ds then
        (let ptScalars = Scalars (PointData ds);
             cellScalars = Scalars (CellData ds);
             ptGhosts = GetGhostArray (Heap ds) (PointData ds);
             ptGhostsToSkip = GhostsToSkip (PointData ds);
             cellGhosts = GetGhostArray (Heap ds) (CellData ds);
             cellGhostsToSkip = GhostsToSkip (CellData ds);
             range =
               (case (ptScalars, cellScalars) of
                  (Some p, Some c) \<Rightarrow>
                    (let r1 = GetRange ex (Heap ds) p ptGhosts ptGhostsToSkip;
                         r2 = GetRange ex (Heap ds) c cellGhosts cellGhostsToSkip
                     in ((if fst r1 < fst r2 then fst r1 else fst r2),
                         (if snd r1 > snd r2 then snd r1 else snd r2)))
                | (Some p, None) \<Rightarrow> GetRange ex (Heap ds) p ptGhosts ptGhostsToSkip
                | (None, Some c) \<Rightarrow> GetRange ex (Heap ds) c cellGhosts cellGhostsToSkip
                | (None, None) \<Rightarrow> (0, 1));
             now = TimeStampModified (GlobalTime ds)
         in ds\<lparr>ScalarRange := range, ScalarRangeComputeTime := now, GlobalTime := now\<rparr>)
      else ds)"

text \<open>\<^verbatim>\<open>vtkDataSet::GetScalarRange\<close>: the range and the data set with its cache updated.\<close>

definition GetScalarRange :: "externals \<Rightarrow> vtkDataSet \<Rightarrow> (real \<times> real) \<times> vtkDataSet" where
  "GetScalarRange ex ds = (let ds' = ComputeScalarRange ex ds in (ScalarRange ds', ds'))"

section \<open>Bounds, length\<close>

text \<open>
  Modelled from the spec: \<^verbatim>\<open>vtkMath::UninitializeBounds\<close> (\<^verbatim>\<open>vtkMath.h\<close>) is not among the
  sources. The spec asks for an "uninitialized" sentinel distinct from the degenerate
  box of six zeros; the sentinel is the inverted box \<open>(1, -1, 1, -1, 1, -1)\<close>.
\<close>

definition UninitializeBounds :: "real list" where
  "UninitializeBounds = [1, -1, 1, -1, 1, -1]"

text \<open>\<^verbatim>\<open>DataSet->GetPoint(pointId, x)\<close>: the coordinates as \<^verbatim>\<open>double x[3]\<close>.\<close>

definition GetPoint :: "vtkDataSet \<Rightarrow> nat \<Rightarrow> real list" where
  "GetPoint ds pointId = (case Points ds ! pointId of (x, y, z) \<Rightarrow> [x, y, z])"

text \<open>\<^verbatim>\<open>ComputeBoundsFunctor::Initialize\<close>: the value of a fresh thread-local box.\<close>

definition BoundsInitialize :: "externals \<Rightarrow> real list" where
  "BoundsInitialize ex =
     [VTK_DOUBLE_MAX ex, VTK_DOUBLE_MIN ex, VTK_DOUBLE_MAX ex, VTK_DOUBLE_MIN ex,
      VTK_DOUBLE_MAX ex, VTK_DOUBLE_MIN ex]"

text \<open>The body of the loop over \<open>j\<close> in \<^verbatim>\<open>operator()\<close>, with \<open>v\<close> for \<^verbatim>\<open>x[j]\<close>.\<close>

definition Widen :: "real list \<Rightarrow> real \<Rightarrow> nat \<Rightarrow> real list" where
  "Widen bounds v j =
     (let bounds = (if v < bounds ! (2 * j) then bounds[2 * j := v] else bounds);
          bounds = (if v > bounds ! (2 * j + 1) then bounds[2 * j + 1 := v] else bounds)
      in bounds)"

text \<open>\<^verbatim>\<open>ComputeBoundsFunctor::operator()(begin, end)\<close> on the worker's local box.\<close>

definition BoundsOperator :: "vtkDataSet \<Rightarrow> real list \<Rightarrow> nat \<times> nat \<Rightarrow> real list" where
  "BoundsOperator ds bounds chunk =
     foldl (\<lambda>bounds pointId.
              let x = GetPoint ds pointId
              in foldl (\<lambda>bounds j. Widen bounds (x ! j) j) bounds [0..<3])
           bounds [fst chunk..<snd chunk]"

text \<open>\<^verbatim>\<open>ComputeBoundsFunctor::Reduce\<close> over the thread-local boxes.\<close>

definition BoundsReduce :: "externals \<Rightarrow> real list list \<Rightarrow> real list" where
  "BoundsReduce ex locals =
     foldl (\<lambda>Bnds bounds.
              foldl (\<lambda>Bnds j.
                       let Bnds = (if bounds ! (2 * j) < Bnds ! (2 * j)
                                   then Bnds[2 * j := bounds ! (2 * j)] else Bnds);
                           Bnds = (if bounds ! (2 * j + 1) > Bnds ! (2 * j + 1)
                                   then Bnds[2 * j + 1 := bounds ! (2 * j + 1)] else Bnds)
                       in Bnds)
                    Bnds [0..<3])
           (BoundsInitialize ex) locals"

text \<open>
  \<^verbatim>\<open>vtkSMPTools::For(0, n, functor)\<close> for the bounds functor: every worker initialises
  its local box, runs the operator on its chunks, and the locals are reduced.
\<close>

definition BoundsFor :: "externals \<Rightarrow> vtkDataSet \<Rightarrow> nat \<Rightarrow> real list" where
  "BoundsFor ex ds n =
     BoundsReduce ex
       (map (\<lambda>chunks. foldl (BoundsOperator ds) (BoundsInitialize ex) chunks) (SMPFor ex n))"

text \<open>\<^verbatim>\<open>vtkDataSet::ComputeBounds\<close>\<close>

definition ComputeBounds :: "externals \<Rightarrow> vtkDataSet \<Rightarrow> vtkDataSet" where
  "ComputeBounds ex ds =
     (if GetMTime ds > ComputeTime ds then
        (let bnds = (if GetNumberOfPoints ds \<noteq> 0
                     then BoundsFor ex ds (GetNumberOfPoints ds)
                     else UninitializeBounds);
             now = TimeStampModified (GlobalTime ds)
         in ds\<lparr>Bounds := bnds, ComputeTime := now, GlobalTime := now\<rparr>)
      else ds)"

text \<open>\<^verbatim>\<open>vtkDataSet::GetBounds\<close>\<close>

definition GetBounds :: "externals \<Rightarrow> vtkDataSet \<Rightarrow> real list \<times> vtkDataSet" where
  "GetBounds ex ds = (let ds' = ComputeBounds ex ds in (Bounds ds', ds'))"



section \<open>Attribute consistency\<close>

text \<open>
  What \<^verbatim>\<open>vtkErrorMacro\<close> and \<^verbatim>\<open>vtkWarningMacro\<close> report: the severity, the kind of
  element, the name of the array, its number of tuples and the number of elements.
\<close>

datatype severity = ErrorSeverity | WarningSeverity
datatype element = PointElement | CellElement

type_synonym diagnostic = "severity \<times> element \<times> string \<times> nat \<times> nat"

text \<open>
  One of the two loops of \<^verbatim>\<open>CheckAttributes\<close> over the arrays of an attribute set:
  \<open>Inl\<close> is the early \<^verbatim>\<open>return 1\<close> with the messages so far, \<open>Inr\<close> the end of the
  loop.
\<close>

fun CheckArrays ::
  "store \<Rightarrow> element \<Rightarrow> nat \<Rightarrow> (string option \<times> addr) list \<Rightarrow> diagnostic list
    \<Rightarrow> diagnostic list + diagnostic list" where
  "CheckArrays h el num [] out = Inr out"
| "CheckArrays h el num ((n, a) # rest) out =
     (let numTuples = GetNumberOfTuples (h a);
          name = (case n of None \<Rightarrow> [] | Some s \<Rightarrow> s)
      in if numTuples < num then Inl (out @ [(ErrorSeverity, el, name, numTuples, num)])
         else if numTuples > num
           then CheckArrays h el num rest (out @ [(WarningSeverity, el, name, numTuples, num)])
           else CheckArrays h el num rest out)"

text \<open>
  \<^verbatim>\<open>vtkDataSet::CheckAttributes\<close>: the returned \<^verbatim>\<open>int\<close>, the messages reported, and
  the data set after the call.
\<close>

definition CheckAttributes :: "vtkDataSet \<Rightarrow> int \<times> diagnostic list \<times> vtkDataSet" where
  "CheckAttributes ds =
     (case CheckArrays (Heap ds) PointElement (GetNumberOfPoints ds) (Arrays (PointData ds)) [] of
        Inl out \<Rightarrow> (1, out, ds)
      | Inr out \<Rightarrow>
          (case CheckArrays (Heap ds) CellElement (NumberOfCells ds) (Arrays (CellData ds)) out of
             Inl out' \<Rightarrow> (1, out', ds)
           | Inr out' \<Rightarrow> (0, out', ds)))"

text \<open>
  The words of the spec for the check: an array is too short when it has fewer tuples
  than there are elements; an array with more tuples than elements earns a warning.
\<close>

definition TooFew :: "store \<Rightarrow> nat \<Rightarrow> (string option \<times> addr) list \<Rightarrow> bool" where
  "TooFew h num arrays = list_ex (\<lambda>na. GetNumberOfTuples (h (snd na)) < num) arrays"

definition Warnings ::
  "store \<Rightarrow> element \<Rightarrow> nat \<Rightarrow> (string option \<times> addr) list \<Rightarrow> diagnostic list" where
  "Warnings h el num arrays =
     map (\<lambda>na. (WarningSeverity, el, (case fst na of None \<Rightarrow> [] | Some s \<Rightarrow> s),
                 GetNumberOfTuples (h (snd na)), num))
         (filter (\<lambda>na. GetNumberOfTuples (h (snd na)) > num) arrays)"

section \<open>The cached ghost-array pointers\<close>

text \<open>\<^verbatim>\<open>vtkDataSet::UpdatePointGhostArrayCache\<close> and \<^verbatim>\<open>UpdateCellGhostArrayCache\<close>\<close>

definition UpdatePointGhostArrayCache :: "vtkDataSet \<Rightarrow> vtkDataSet" where
  "UpdatePointGhostArrayCache ds =
     (let p = DownCastUChar (Heap ds) (GetArray (Arrays (PointData ds)) GhostArrayName)
      in ds\<lparr>PointGhostArray := p, PointGhostArrayCached := (p \<noteq> None)\<rparr>)"

definition UpdateCellGhostArrayCache :: "vtkDataSet \<Rightarrow> vtkDataSet" where
  "UpdateCellGhostArrayCache ds =
     (let p = DownCastUChar (Heap ds) (GetArray (Arrays (CellData ds)) GhostArrayName)
      in ds\<lparr>CellGhostArray := p, CellGhostArrayCached := (p \<noteq> None)\<rparr>)"

text \<open>\<^verbatim>\<open>vtkDataSet::OnDataModified\<close>, called with the attribute set that was modified.\<close>

definition OnDataModified :: "element \<Rightarrow> vtkDataSet \<Rightarrow> vtkDataSet" where
  "OnDataModified source ds =
     (case source of
        PointElement \<Rightarrow> UpdatePointGhostArrayCache ds
      | CellElement \<Rightarrow> UpdateCellGhostArrayCache ds)"

text \<open>
  Modelled from the spec: \<^verbatim>\<open>vtkFieldData::AddArray\<close> and \<^verbatim>\<open>RemoveArray\<close> are not among
  the sources. An array added under a name that is taken replaces the array of that
  name, any other is appended; a removal drops the array of the name; either write
  advances the clock of the attribute set.
\<close>

fun SetArray :: "(string option \<times> addr) list \<Rightarrow> string option \<Rightarrow> addr \<Rightarrow> (string option \<times> addr) list" where
  "SetArray [] n a = [(n, a)]"
| "SetArray ((m, b) # rest) n a =
     (if n \<noteq> None \<and> m = n then (n, a) # rest else (m, b) # SetArray rest n a)"

fun DropArray :: "(string option \<times> addr) list \<Rightarrow> string \<Rightarrow> (string option \<times> addr) list" where
  "DropArray [] n = []"
| "DropArray ((m, b) # rest) n = (if m = Some n then rest else (m, b) # DropArray rest n)"

definition FieldAddArray :: "vtkFieldData \<Rightarrow> string option \<Rightarrow> addr \<Rightarrow> vtkMTimeType \<Rightarrow> vtkFieldData" where
  "FieldAddArray fd n a now = fd\<lparr>Arrays := SetArray (Arrays fd) n a, FieldMTime := now\<rparr>"

definition FieldRemoveArray :: "vtkFieldData \<Rightarrow> string \<Rightarrow> vtkMTimeType \<Rightarrow> vtkFieldData" where
  "FieldRemoveArray fd n now =
     fd\<lparr>Arrays := DropArray (Arrays fd) n,
        Scalars := (if Scalars fd \<noteq> None \<and> Scalars fd = GetArray (Arrays fd) n then None else Scalars fd),
        FieldMTime := now\<rparr>"

text \<open>
  Modelled from the spec: a write to the point data or the cell data of a data set.
  The constructor registers \<^verbatim>\<open>DataObserver\<close> for the \<^verbatim>\<open>ModifiedEvent\<close> of both
  attribute sets, so the write is followed by \<^verbatim>\<open>OnDataModified\<close> with that set as the
  source (the event mechanism, \<^verbatim>\<open>vtkObject.cxx\<close>, is not among the sources).
\<close>

definition PointDataAddArray :: "string option \<Rightarrow> addr \<Rightarrow> vtkDataSet \<Rightarrow> vtkDataSet" where
  "PointDataAddArray n a ds =
     (let now = TimeStampModified (GlobalTime ds)
      in OnDataModified PointElement
           (ds\<lparr>PointData := FieldAddArray (PointData ds) n a now, GlobalTime := now\<rparr>))"

definition CellDataAddArray :: "string option \<Rightarrow> addr \<Rightarrow> vtkDataSet \<Rightarrow> vtkDataSet" where
  "CellDataAddArray n a ds =
     (let now = TimeStampModified (GlobalTime ds)
      in OnDataModified CellElement
           (ds\<lparr>CellData := FieldAddArray (CellData ds) n a now, GlobalTime := now\<rparr>))"

definition PointDataRemoveArray :: "string \<Rightarrow> vtkDataSet \<Rightarrow> vtkDataSet" where
  "PointDataRemoveArray n ds =
     (let now = TimeStampModified (GlobalTime ds)
      in OnDataModified PointElement
           (ds\<lparr>PointData := FieldRemoveArray (PointData ds) n now, GlobalTime := now\<rparr>))"

definition CellDataRemoveArray :: "string \<Rightarrow> vtkDataSet \<Rightarrow> vtkDataSet" where
  "CellDataRemoveArray n ds =
     (let now = TimeStampModified (GlobalTime ds)
      in OnDataModified CellElement
           (ds\<lparr>CellData := FieldRemoveArray (CellData ds) n now, GlobalTime := now\<rparr>))"

text \<open>\<^verbatim>\<open>vtkUnsignedCharArray::New()\<close> with its tuples set and filled: a new object in the store.\<close>

definition NewUCharArray :: "uchar list \<Rightarrow> vtkDataSet \<Rightarrow> addr \<times> vtkDataSet" where
  "NewUCharArray vs ds =
     (NextAddr ds, ds\<lparr>Heap := (Heap ds)(NextAddr ds := UnsignedCharArray vs), NextAddr := NextAddr ds + 1\<rparr>)"

text \<open>
  \<^verbatim>\<open>vtkDataSet::GetPointGhostArray\<close> and \<^verbatim>\<open>GetCellGhostArray\<close>: the pointer returned and
  the data set with its cache filled. (The \<^verbatim>\<open>assert\<close> of the source is the property
  \<open>GhostCacheValid\<close> below.)
\<close>

definition GetPointGhostArray :: "vtkDataSet \<Rightarrow> addr option \<times> vtkDataSet" where
  "GetPointGhostArray ds =
     (let ds' = (if \<not> PointGhostArrayCached ds
                 then ds\<lparr>PointGhostArray :=
                            DownCastUChar (Heap ds) (GetArray (Arrays (PointData ds)) GhostArrayName),
                         PointGhostArrayCached := True\<rparr>
                 else ds)
      in (PointGhostArray ds', ds'))"

definition GetCellGhostArray :: "vtkDataSet \<Rightarrow> addr option \<times> vtkDataSet" where
  "GetCellGhostArray ds =
     (let ds' = (if \<not> CellGhostArrayCached ds
                 then ds\<lparr>CellGhostArray :=
                            DownCastUChar (Heap ds) (GetArray (Arrays (CellData ds)) GhostArrayName),
                         CellGhostArrayCached := True\<rparr>
                 else ds)
      in (CellGhostArray ds', ds'))"

text \<open>\<^verbatim>\<open>vtkDataSet::AllocatePointGhostArray\<close> and \<^verbatim>\<open>AllocateCellGhostArray\<close>\<close>

definition AllocatePointGhostArray :: "vtkDataSet \<Rightarrow> addr option \<times> vtkDataSet" where
  "AllocatePointGhostArray ds =
     (case GetPointGhostArray ds of
        (Some p, ds1) \<Rightarrow> (PointGhostArray ds1, ds1)
      | (None, ds1) \<Rightarrow>
          (case NewUCharArray (replicate (GetNumberOfPoints ds1) 0) ds1 of
             (ghosts, ds2) \<Rightarrow>
               (let ds3 = PointDataAddArray (Some GhostArrayName) ghosts ds2;
                    ds4 = ds3\<lparr>PointGhostArray := Some ghosts, PointGhostArrayCached := True\<rparr>
                in (PointGhostArray ds4, ds4))))"

definition AllocateCellGhostArray :: "vtkDataSet \<Rightarrow> addr option \<times> vtkDataSet" where
  "AllocateCellGhostArray ds =
     (case GetCellGhostArray ds of
        (Some p, ds1) \<Rightarrow> (CellGhostArray ds1, ds1)
      | (None, ds1) \<Rightarrow>
          (case NewUCharArray (replicate (NumberOfCells ds1) 0) ds1 of
             (ghosts, ds2) \<Rightarrow>
               (let ds3 = CellDataAddArray (Some GhostArrayName) ghosts ds2;
                    ds4 = ds3\<lparr>CellGhostArray := Some ghosts, CellGhostArrayCached := True\<rparr>
                in (CellGhostArray ds4, ds4))))"

text \<open>The property asserted in \<^verbatim>\<open>GetPointGhostArray\<close> and \<^verbatim>\<open>GetCellGhostArray\<close>.\<close>

definition GhostCacheValid :: "vtkDataSet \<Rightarrow> bool" where
  "GhostCacheValid ds =
     ((if PointGhostArrayCached ds
       then PointGhostArray ds = DownCastUChar (Heap ds) (GetArray (Arrays (PointData ds)) GhostArrayName)
       else True) \<and>
      (if CellGhostArrayCached ds
       then CellGhostArray ds = DownCastUChar (Heap ds) (GetArray (Arrays (CellData ds)) GhostArrayName)
       else True))"

section \<open>Ghost classification of a structured extent\<close>

text \<open>
  Modelled from the spec: \<^verbatim>\<open>vtkStructuredData::GetNumberOfPoints\<close> and
  \<^verbatim>\<open>GetNumberOfCells\<close> (\<^verbatim>\<open>vtkStructuredData.h\<close>) are not among the sources. The spec sizes
  the ghost arrays to one tuple per point, the point extent being inclusive, and one
  tuple per cell, an axis without extension counting as one cell wide.
\<close>

definition StructuredGetNumberOfPoints :: "int list \<Rightarrow> nat" where
  "StructuredGetNumberOfPoints ext =
     nat (ext ! 1 - ext ! 0 + 1) * nat (ext ! 3 - ext ! 2 + 1) * nat (ext ! 5 - ext ! 4 + 1)"

definition StructuredGetNumberOfCells :: "int list \<Rightarrow> nat" where
  "StructuredGetNumberOfCells ext =
     nat (max (ext ! 1 - ext ! 0) 1) * nat (max (ext ! 3 - ext ! 2) 1) * nat (max (ext ! 5 - ext ! 4) 1)"

text \<open>
  The distance of an index to the zero extent along one axis, as the point loops and
  the cell loops compute \<open>di\<close>, \<open>dj\<close> and \<open>dk\<close>.
\<close>

definition PointAxisDist :: "int \<Rightarrow> int \<Rightarrow> int \<Rightarrow> int" where
  "PointAxisDist lo hi i =
     (let d = 0;
          d = (if i < lo then lo - i else d);
          d = (if i > hi then i - hi + 1 else d)
      in d)"

definition CellAxisDist :: "int \<Rightarrow> int \<Rightarrow> int \<Rightarrow> int" where
  "CellAxisDist lo hi i =
     (let d = 0;
          d = (if i < lo then lo - i else d);
          d = (if i \<ge> hi then i - hi + 1 else d)
      in d)"

text \<open>The distance \<open>dist\<close> of the source, commented there as "Manhatten distance".\<close>

definition CombineDist :: "int \<Rightarrow> int \<Rightarrow> int \<Rightarrow> int" where
  "CombineDist di dj dk =
     (let dist = di;
          dist = (if dj > dist then dj else dist);
          dist = (if dk > dist then dk else dist)
      in dist)"

text \<open>
  The innermost statements of both loops: \<^verbatim>\<open>GetValue(index)\<close>, the bit OR-ed in when
  \<open>dist > 0\<close>, \<^verbatim>\<open>SetValue(index, value)\<close>, \<^verbatim>\<open>index++\<close>. An index outside the array
  is an access out of bounds, \<open>None\<close>. (\<open>d\<close> is the \<open>dist\<close> of the source.)
\<close>

definition MarkGhost :: "uchar \<Rightarrow> int \<Rightarrow> uchar list \<times> nat \<Rightarrow> (uchar list \<times> nat) option" where
  "MarkGhost flag d st =
     (case st of (vs, index) \<Rightarrow>
        if index < length vs
        then (let value = vs ! index;
                  value = (if d > 0 then value OR flag else value)
              in Some (vs[index := value], index + 1))
        else None)"

text \<open>The three nested loops over the points, from \<^verbatim>\<open>index = 0\<close>.\<close>

definition PointLoop :: "int list \<Rightarrow> int list \<Rightarrow> uchar list \<Rightarrow> (uchar list \<times> nat) option" where
  "PointLoop extent zeroExt vs =
     foldl (\<lambda>st k.
        let dk = PointAxisDist (zeroExt ! 4) (zeroExt ! 5) k in
        foldl (\<lambda>st j.
           let dj = PointAxisDist (zeroExt ! 2) (zeroExt ! 3) j in
           foldl (\<lambda>st i.
              let di = PointAxisDist (zeroExt ! 0) (zeroExt ! 1) i;
                  dist = CombineDist di dj dk
              in Option.bind st (MarkGhost DUPLICATEPOINT dist))
             st [extent ! 0..extent ! 1])
          st [extent ! 2..extent ! 3])
       (Some (vs, 0)) [extent ! 4..extent ! 5]"

text \<open>The three nested loops over the cells, the upper bounds exclusive.\<close>

definition CellLoop :: "int list \<Rightarrow> int list \<Rightarrow> uchar list \<Rightarrow> (uchar list \<times> nat) option" where
  "CellLoop extent zeroExt vs =
     foldl (\<lambda>st k.
        let dk = CellAxisDist (zeroExt ! 4) (zeroExt ! 5) k in
        foldl (\<lambda>st j.
           let dj = CellAxisDist (zeroExt ! 2) (zeroExt ! 3) j in
           foldl (\<lambda>st i.
              let di = CellAxisDist (zeroExt ! 0) (zeroExt ! 1) i;
                  dist = CombineDist di dj dk
              in Option.bind st (MarkGhost DUPLICATECELL dist))
             st [extent ! 0..extent ! 1 - 1])
          st [extent ! 2..extent ! 3 - 1])
       (Some (vs, 0)) [extent ! 4..extent ! 5 - 1]"

text \<open>The point part of \<^verbatim>\<open>vtkDataSet::GenerateGhostArray\<close>.\<close>

definition GhostPoints :: "int list \<Rightarrow> int list \<Rightarrow> vtkDataSet \<Rightarrow> vtkDataSet option" where
  "GhostPoints extent zeroExt ds =
     (case (case DownCastUChar (Heap ds) (GetArray (Arrays (PointData ds)) GhostArrayName) of
              Some p \<Rightarrow> (p, ds)
            | None \<Rightarrow>
                (case NewUCharArray (replicate (StructuredGetNumberOfPoints extent) 0) ds of
                   (p, ds') \<Rightarrow> (p, PointDataAddArray (Some GhostArrayName) p ds')))
      of (ghostPoints, ds1) \<Rightarrow>
        (case PointLoop extent zeroExt (UCharValues (Heap ds1 ghostPoints)) of
           None \<Rightarrow> None
         | Some (vs, index) \<Rightarrow>
             Some (ds1\<lparr>Heap := (Heap ds1)(ghostPoints := UnsignedCharArray vs)\<rparr>)))"

text \<open>
  The treatment of an axis without extension before the cell loops: both the extent
  and the caller's \<^verbatim>\<open>zeroExt\<close> get their upper bound raised.
\<close>

definition InflateAxis :: "nat \<Rightarrow> int list \<times> int list \<Rightarrow> int list \<times> int list" where
  "InflateAxis a ez =
     (case ez of (extent, zeroExt) \<Rightarrow>
        if extent ! (2 * a) = extent ! (2 * a + 1)
        then (extent[2 * a + 1 := extent ! (2 * a + 1) + 1],
              zeroExt[2 * a + 1 := zeroExt ! (2 * a + 1) + 1])
        else (extent, zeroExt))"

text \<open>The cell part of \<^verbatim>\<open>vtkDataSet::GenerateGhostArray\<close>, with the \<^verbatim>\<open>zeroExt\<close> it leaves.\<close>

definition GhostCells :: "int list \<Rightarrow> int list \<Rightarrow> vtkDataSet \<Rightarrow> (vtkDataSet \<times> int list) option" where
  "GhostCells extent zeroExt ds =
     (case (case DownCastUChar (Heap ds) (GetArray (Arrays (CellData ds)) GhostArrayName) of
              Some p \<Rightarrow> (p, ds)
            | None \<Rightarrow>
                (case NewUCharArray (replicate (StructuredGetNumberOfCells extent) 0) ds of
                   (p, ds') \<Rightarrow> (p, CellDataAddArray (Some GhostArrayName) p ds')))
      of (ghostCells, ds1) \<Rightarrow>
        (case InflateAxis 2 (InflateAxis 1 (InflateAxis 0 (extent, zeroExt))) of
           (extent', zeroExt') \<Rightarrow>
             (case CellLoop extent' zeroExt' (UCharValues (Heap ds1 ghostCells)) of
                None \<Rightarrow> None
              | Some (vs, index) \<Rightarrow>
                  Some (ds1\<lparr>Heap := (Heap ds1)(ghostCells := UnsignedCharArray vs)\<rparr>, zeroExt'))))"

text \<open>
  \<^verbatim>\<open>vtkDataSet::GenerateGhostArray(zeroExt, cellOnly)\<close>: the data set after the call and
  the contents of the caller's array \<^verbatim>\<open>zeroExt\<close>; \<open>None\<close> when a ghost array that was
  there already is too short for the extent.
\<close>

definition GenerateGhostArray :: "int list \<Rightarrow> bool \<Rightarrow> vtkDataSet \<Rightarrow> (vtkDataSet \<times> int list) option" where
  "GenerateGhostArray zeroExt cellOnly ds =
     (if ExtentKind ds \<noteq> VTK_3D_EXTENT then Some (ds, zeroExt)
      else
        (let extent = DATA_EXTENT ds in
         if list_all (\<lambda>i. extent ! i = zeroExt ! i) [0..<6] then Some (ds, zeroExt)
         else
           (case (if \<not> cellOnly then GhostPoints extent zeroExt ds else Some ds) of
              None \<Rightarrow> None
            | Some ds1 \<Rightarrow> GhostCells extent zeroExt ds1)))"

section \<open>Ghost queries\<close>

text \<open>The loop of \<^verbatim>\<open>IsAnyBitSetFunctor::operator()\<close> from \<open>i\<close> to \<open>end\<close>: whether it found a bit.\<close>

function ScanBits :: "uchar list \<Rightarrow> int \<Rightarrow> nat \<Rightarrow> nat \<Rightarrow> bool" where
  "ScanBits BitSet BitFlag i e =
     (if i < e
      then (if and (uint (BitSet ! i)) BitFlag \<noteq> 0 then True
            else ScanBits BitSet BitFlag (i + 1) e)
      else False)"
  by pat_completeness auto
termination
  by (relation "measure (\<lambda>(BitSet, BitFlag, i, e). e - i)") auto

text \<open>\<^verbatim>\<open>IsAnyBitSetFunctor::operator()(begin, end)\<close> on the worker's local flag.\<close>

definition IsAnyBitOperator :: "uchar list \<Rightarrow> int \<Rightarrow> uchar \<Rightarrow> nat \<times> nat \<Rightarrow> uchar" where
  "IsAnyBitOperator BitSet BitFlag local chunk =
     (if local \<noteq> 0 then local
      else if ScanBits BitSet BitFlag (fst chunk) (snd chunk) then 1 else local)"

text \<open>\<^verbatim>\<open>IsAnyBitSetFunctor::Reduce\<close>\<close>

definition IsAnyBitReduce :: "uchar list \<Rightarrow> int" where
  "IsAnyBitReduce locals = (if list_ex (\<lambda>isAnyBit. isAnyBit \<noteq> 0) locals then 1 else 0)"

text \<open>\<^verbatim>\<open>vtkDataSet::IsAnyBitSet(a, bitFlag)\<close>\<close>

definition IsAnyBitSet :: "externals \<Rightarrow> store \<Rightarrow> addr option \<Rightarrow> int \<Rightarrow> bool" where
  "IsAnyBitSet ex h a bitFlag =
     (case a of
        Some p \<Rightarrow>
          (let BitSet = UCharValues (h p);
               locals = map (\<lambda>chunks. foldl (IsAnyBitOperator BitSet bitFlag) 0 chunks)
                            (SMPFor ex (length BitSet))
           in IsAnyBitReduce locals \<noteq> 0)
      | None \<Rightarrow> False)"

text \<open>\<^verbatim>\<open>vtkDataSet::HasAnyGhostPoints\<close> and \<^verbatim>\<open>HasAnyGhostCells\<close>\<close>

definition HasAnyGhostPoints :: "externals \<Rightarrow> vtkDataSet \<Rightarrow> bool \<times> vtkDataSet" where
  "HasAnyGhostPoints ex ds =
     (case GetPointGhostArray ds of
        (a, ds') \<Rightarrow> (IsAnyBitSet ex (Heap ds') a (uint DUPLICATEPOINT), ds'))"

definition HasAnyGhostCells :: "externals \<Rightarrow> vtkDataSet \<Rightarrow> bool \<times> vtkDataSet" where
  "HasAnyGhostCells ex ds =
     (case GetCellGhostArray ds of
        (a, ds') \<Rightarrow> (IsAnyBitSet ex (Heap ds') a (uint DUPLICATECELL), ds'))"

section \<open>Construction\<close>

text \<open>
  The constructor \<^verbatim>\<open>vtkDataSet::vtkDataSet()\<close>, given what the concrete subtype and the
  pipeline supply (extent type, extent, points, number of cells). The object and its two
  attribute sets are stamped as they are created; \<open>ComputeTime\<close> and
  \<open>ScalarRangeComputeTime\<close> start at zero as every \<^verbatim>\<open>vtkTimeStamp\<close> does.
\<close>

definition NewFieldData :: "vtkMTimeType \<Rightarrow> vtkFieldData" where
  "NewFieldData now = \<lparr>Arrays = [], Scalars = None, GhostsToSkip = 0, FieldMTime = now\<rparr>"

definition NewDataSet ::
  "ExtentType \<Rightarrow> int list \<Rightarrow> (real \<times> real \<times> real) list \<Rightarrow> nat \<Rightarrow> vtkDataSet" where
  "NewDataSet kind extent pts ncells =
     \<lparr>Heap = (\<lambda>a. DoubleArray []), NextAddr = 0,
      GlobalTime = TimeStampModified (TimeStampModified (TimeStampModified 0)),
      ObjectMTime = TimeStampModified 0,
      ExtentKind = kind, DATA_EXTENT = extent, Points = pts, NumberOfCells = ncells,
      PointData = NewFieldData (TimeStampModified (TimeStampModified 0)),
      CellData = NewFieldData (TimeStampModified (TimeStampModified (TimeStampModified 0))),
      PointGhostArray = None, PointGhostArrayCached = False,
      CellGhostArray = None, CellGhostArrayCached = False,
      Bounds = UninitializeBounds, ComputeTime = 0,
      ScalarRange = (0, 1), ScalarRangeComputeTime = 0\<rparr>"

text \<open>The schedule of a sequential back end: one worker, one chunk.\<close>

definition Sequential :: "nat \<Rightarrow> (nat \<times> nat) list list" where
  "Sequential n = [[(0, n)]]"

text \<open>A schedule with two workers, the first taking two chunks.\<close>

definition TwoWorkers :: "nat \<Rightarrow> (nat \<times> nat) list list" where
  "TwoWorkers n = [[(0, n div 4), (n div 2, n)], [(n div 4, n div 2)]]"

text \<open>
  Modelled from the spec: the contract of the parallel executor, which is not among the
  sources: the chunks are ranges within \<open>[0, n)\<close>, and every index of \<open>[0, n)\<close> lies in a
  chunk of some worker.
\<close>

definition ValidSchedule :: "(nat \<times> nat) list list \<Rightarrow> nat \<Rightarrow> bool" where
  "ValidSchedule sched n =
     (list_all (list_all (\<lambda>c. fst c \<le> snd c \<and> snd c \<le> n)) sched \<and>
      list_all (\<lambda>i. list_ex (list_ex (\<lambda>c. fst c \<le> i \<and> i < snd c)) sched) [0..<n])"

section \<open>The ghost classification in the words of the spec\<close>

text \<open>
  The effect of a run of the innermost statements on the array: the entries from index
  \<open>n\<close> on receive the flag where the distance in the list is positive.
\<close>

fun MarkFrom :: "uchar \<Rightarrow> int list \<Rightarrow> uchar list \<Rightarrow> nat \<Rightarrow> uchar list" where
  "MarkFrom flag [] vs n = vs"
| "MarkFrom flag (d # ds) vs n =
     MarkFrom flag ds (vs[n := (if d > 0 then vs ! n OR flag else vs ! n)]) (n + 1)"

text \<open>
  The points of an extent in the order the point loops visit them, which is the order
  of their tuples in the array: \<open>i\<close> fastest, then \<open>j\<close>, then \<open>k\<close>.
\<close>

definition ExtentPoints :: "int list \<Rightarrow> (int \<times> int \<times> int) list" where
  "ExtentPoints ext =
     concat (map (\<lambda>k. concat (map (\<lambda>j. map (\<lambda>i. (i, j, k)) [ext ! 0..ext ! 1])
                                     [ext ! 2..ext ! 3]))
                 [ext ! 4..ext ! 5])"

text \<open>
  The cells of an extent in the order the cell loops visit them, the upper bounds
  exclusive.
\<close>

definition ExtentCells :: "int list \<Rightarrow> (int \<times> int \<times> int) list" where
  "ExtentCells ext =
     concat (map (\<lambda>k. concat (map (\<lambda>j. map (\<lambda>i. (i, j, k)) [ext ! 0..ext ! 1 - 1])
                                     [ext ! 2..ext ! 3 - 1]))
                 [ext ! 4..ext ! 5 - 1])"

text \<open>
  The distance the point loops compute for a point.
\<close>

definition PointDist :: "int list \<Rightarrow> int \<times> int \<times> int \<Rightarrow> int" where
  "PointDist zeroExt p =
     (case p of (i, j, k) \<Rightarrow>
        CombineDist (PointAxisDist (zeroExt ! 0) (zeroExt ! 1) i)
                    (PointAxisDist (zeroExt ! 2) (zeroExt ! 3) j)
                    (PointAxisDist (zeroExt ! 4) (zeroExt ! 5) k))"

text \<open>
  The distance the cell loops compute for a cell.
\<close>

definition CellDist :: "int list \<Rightarrow> int \<times> int \<times> int \<Rightarrow> int" where
  "CellDist zeroExt p =
     (case p of (i, j, k) \<Rightarrow>
        CombineDist (CellAxisDist (zeroExt ! 0) (zeroExt ! 1) i)
                    (CellAxisDist (zeroExt ! 2) (zeroExt ! 3) j)
                    (CellAxisDist (zeroExt ! 4) (zeroExt ! 5) k))"

text \<open>
  The innermost statements run over a list of distances.
\<close>

definition MarkAll :: "uchar \<Rightarrow> (uchar list \<times> nat) option \<Rightarrow> int list \<Rightarrow> (uchar list \<times> nat) option" where
  "MarkAll flag st ds = foldl (\<lambda>st d. Option.bind st (MarkGhost flag d)) st ds"

text \<open>
  Where the ghost array of an attribute set is after the call: where it was, or at the
  fresh address when there was none.
\<close>

definition GhostAddr :: "store \<Rightarrow> vtkFieldData \<Rightarrow> addr \<Rightarrow> addr" where
  "GhostAddr h fd fresh = (case GetGhostArray h fd of Some p \<Rightarrow> p | None \<Rightarrow> fresh)"

text \<open>
  The values of the ghost array of an attribute set before the call: those it held, or
  the zeros a new array of \<open>n\<close> tuples is filled with.
\<close>

definition GhostOld :: "store \<Rightarrow> vtkFieldData \<Rightarrow> nat \<Rightarrow> uchar list" where
  "GhostOld h fd n = (case GetGhostArray h fd of Some p \<Rightarrow> UCharValues (h p) | None \<Rightarrow> replicate n 0)"



text \<open>
  An array of six bounds whose upper bounds are raised on the axes where the extent has
  no extension.
\<close>

definition InflateUpper :: "int list \<Rightarrow> int list \<Rightarrow> int list" where
  "InflateUpper ext v =
     [v ! 0, (if ext ! 0 = ext ! 1 then v ! 1 + 1 else v ! 1),
      v ! 2, (if ext ! 2 = ext ! 3 then v ! 3 + 1 else v ! 3),
      v ! 4, (if ext ! 4 = ext ! 5 then v ! 5 + 1 else v ! 5)]"

text \<open>
  Every array of the two attribute sets is an allocated object of the store.
\<close>

definition Allocated :: "vtkDataSet \<Rightarrow> bool" where
  "Allocated ds =
     (list_all (\<lambda>na. snd na < NextAddr ds) (Arrays (PointData ds)) \<and>
      list_all (\<lambda>na. snd na < NextAddr ds) (Arrays (CellData ds)))"

text \<open>
  The ghost arrays that exist already have a tuple for every point (unless only the
  cells are asked for) and for every cell of the extent; a shorter array would be
  accessed out of bounds.
\<close>

definition GhostRoom :: "bool \<Rightarrow> vtkDataSet \<Rightarrow> bool" where
  "GhostRoom cellOnly ds =
     ((cellOnly \<or>
       StructuredGetNumberOfPoints (DATA_EXTENT ds)
         \<le> length (GhostOld (Heap ds) (PointData ds) (StructuredGetNumberOfPoints (DATA_EXTENT ds)))) \<and>
      StructuredGetNumberOfCells (DATA_EXTENT ds)
         \<le> length (GhostOld (Heap ds) (CellData ds) (StructuredGetNumberOfCells (DATA_EXTENT ds))))"

text \<open>
  The words of the spec for the distance along one axis: \<open>max(0, lo - a, a - hi)\<close>, with
  the adjustment by one where the index exceeds the upper bound.
\<close>

definition SpecAxisDist :: "int \<Rightarrow> int \<Rightarrow> int \<Rightarrow> int" where
  "SpecAxisDist lo hi a = max 0 (max (lo - a) (if a > hi then a - hi + 1 else a - hi))"

text \<open>
  The words of the spec for the distance of a point: the greatest of the three axis
  distances.
\<close>

definition ChebyshevDist :: "int list \<Rightarrow> int \<times> int \<times> int \<Rightarrow> int" where
  "ChebyshevDist zeroExt p =
     (case p of (i, j, k) \<Rightarrow>
        max (SpecAxisDist (zeroExt ! 0) (zeroExt ! 1) i)
            (max (SpecAxisDist (zeroExt ! 2) (zeroExt ! 3) j)
                 (SpecAxisDist (zeroExt ! 4) (zeroExt ! 5) k)))"

text \<open>
  The words of the spec for "bits are only added, never cleared": the arrays have the
  same length and every entry after has all the bits of the entry before.
\<close>

definition BitsKept :: "uchar list \<Rightarrow> uchar list \<Rightarrow> bool" where
  "BitsKept old new = list_all2 (\<lambda>v v'. v' AND v = v) old new"

text \<open>
  An array object after the call against the same object before: an unsigned-char array
  has kept its length and its bits, any other array is unchanged.
\<close>

definition ArrayKept :: "vtkArray \<Rightarrow> vtkArray \<Rightarrow> bool" where
  "ArrayKept a a' =
     (case a of
        UnsignedCharArray vs \<Rightarrow>
          (case a' of UnsignedCharArray vs' \<Rightarrow> BitsKept vs vs' | DoubleArray xs \<Rightarrow> False)
      | DoubleArray xs \<Rightarrow> a' = DoubleArray xs)"

text \<open>
  Every object of the store below an address bound has been kept in that sense.
\<close>

definition HeapKept :: "nat \<Rightarrow> store \<Rightarrow> store \<Rightarrow> bool" where
  "HeapKept bound h h' = list_all (\<lambda>b. ArrayKept (h b) (h' b)) [0..<bound]"

text \<open>
  The ghost array of an attribute set after the call against the one before: the array
  that was there is still the one under the reserved name; where there was none, an
  array is attached under the reserved name that is a new object, has \<open>n\<close> tuples, and
  holds nothing but zeros with the flag OR-ed in.
\<close>

definition GhostAttached ::
  "uchar \<Rightarrow> nat \<Rightarrow> addr option \<Rightarrow> nat \<Rightarrow> store \<Rightarrow> addr option \<Rightarrow> bool" where
  "GhostAttached flag n before bound h' after =
     (case before of
        Some c \<Rightarrow> after = Some c
      | None \<Rightarrow>
          (case after of
             None \<Rightarrow> False
           | Some c \<Rightarrow> bound \<le> c \<and> length (UCharValues (h' c)) = n
                \<and> list_all (\<lambda>v. v = 0 \<or> v = flag) (UCharValues (h' c))))"

section \<open>Example data\<close>

text \<open>
  An instance of the range query: the least and the greatest value of the array among
  the elements whose ghost status does not meet the mask (an inverted range when there
  is none).
\<close>

definition ExampleGetRange :: "store \<Rightarrow> addr \<Rightarrow> addr option \<Rightarrow> uchar \<Rightarrow> real \<times> real" where
  "ExampleGetRange h a g m =
     (let vs = (case h a of DoubleArray xs \<Rightarrow> xs | UnsignedCharArray bs \<Rightarrow> map (\<lambda>b. real (unat b)) bs);
          keep = (case g of
                    None \<Rightarrow> vs
                  | Some p \<Rightarrow> map fst (filter (\<lambda>vb. snd vb AND m = 0) (zip vs (UCharValues (h p)))))
      in (case keep of [] \<Rightarrow> (1, -1) | v # rest \<Rightarrow> (foldl min v rest, foldl max v rest)))"

text \<open>An instance of the externals, with the values the two macros have in \<^verbatim>\<open>vtkType.h\<close>.\<close>

definition ExampleExternals :: externals where
  "ExampleExternals =
     \<lparr>SMPFor = TwoWorkers, GetRange = ExampleGetRange,
      VTK_DOUBLE_MAX = 10 ^ 299, VTK_DOUBLE_MIN = 1 / 10 ^ 299\<rparr>"

text \<open>
  A data set with point scalars of range \<open>[0, 10]\<close> and cell scalars of range \<open>[5, 20]\<close>,
  and the same with the cell scalars, or both, left out.
\<close>

definition ScalarsExample :: "addr option \<Rightarrow> addr option \<Rightarrow> vtkDataSet" where
  "ScalarsExample p c =
     (NewDataSet VTK_PIECES_EXTENT [0, -1, 0, -1, 0, -1] [(0, 0, 0), (1, 2, 2), (1, 0, 1)] 2)
       \<lparr>Heap := (\<lambda>a. if a = 0 then DoubleArray [0, 10, 4] else DoubleArray [20, 5]),
        NextAddr := 2,
        PointData := (NewFieldData 2)\<lparr>Arrays := [(Some ''temperature'', 0)], Scalars := p\<rparr>,
        CellData := (NewFieldData 3)\<lparr>Arrays := [(Some ''pressure'', 1)], Scalars := c\<rparr>\<rparr>"

text \<open>The same data set with a given number of points and of cells.\<close>

definition AttributesExample :: "nat \<Rightarrow> nat \<Rightarrow> vtkDataSet" where
  "AttributesExample npts ncells =
     (ScalarsExample (Some 0) (Some 1))\<lparr>Points := replicate npts (0, 0, 0), NumberOfCells := ncells\<rparr>"

text \<open>
  The scenario of the spec: a structured data set of extent \<open>[0,4,0,4,0,0]\<close>, five by
  five points and four by four cells, without ghost arrays.
\<close>

definition GridExample :: vtkDataSet where
  "GridExample =
     NewDataSet VTK_3D_EXTENT [0, 4, 0, 4, 0, 0]
       (map (\<lambda>p. case p of (i, j, k) \<Rightarrow> (of_int i, of_int j, of_int k)) (ExtentPoints [0, 4, 0, 4, 0, 0]))
       16"

text \<open>
  The grid of the scenario with a point ghost array that is there already, every entry
  holding the bit 2.
\<close>

definition GhostedExample :: vtkDataSet where
  "GhostedExample =
     GridExample\<lparr>Heap := (\<lambda>a. if a = 0 then UnsignedCharArray (replicate 25 2) else DoubleArray []),
                 NextAddr := 1,
                 PointData := (NewFieldData 2)\<lparr>Arrays := [(Some GhostArrayName, 0)]\<rparr>\<rparr>"


lemma ExampleExternals_SMPFor: "SMPFor ExampleExternals = TwoWorkers"
  unfolding ExampleExternals_def by (rule externals.select_convs)

lemma ExampleExternals_MAX: "VTK_DOUBLE_MAX ExampleExternals = 10 ^ 299"
  unfolding ExampleExternals_def by (rule externals.select_convs)

lemma ExampleExternals_MIN: "VTK_DOUBLE_MIN ExampleExternals = 1 / 10 ^ 299"
  unfolding ExampleExternals_def by (rule externals.select_convs)

section \<open>Properties of the scalar range\<close>



section \<open>Properties of the diagonal length\<close>


section \<open>Properties of the attribute check\<close>

lemma CheckArrays_ok:
  "\<not> TooFew h num arrays \<Longrightarrow> CheckArrays h el num arrays out = Inr (out @ Warnings h el num arrays)"
  by (induction arrays arbitrary: out) (auto simp: TooFew_def Warnings_def Let_def)

lemma CheckArrays_short:
  "TooFew h num arrays \<Longrightarrow>
     \<exists>ws n t. CheckArrays h el num arrays out = Inl (out @ ws @ [(ErrorSeverity, el, n, t, num)])
        \<and> t < num \<and> list_all (\<lambda>d. fst d = WarningSeverity) ws"
proof (induction arrays arbitrary: out)
  case Nil
  then show ?case by (simp add: TooFew_def)
next
  case (Cons na arrays)
  obtain n a where na: "na = (n, a)" by (cases na)
  show ?case
  proof (cases "GetNumberOfTuples (h a) < num")
    case True
    then show ?thesis using na by (auto simp: Let_def intro: exI[of _ "[]"])
  next
    case False
    with Cons.prems na have tf: "TooFew h num arrays" by (simp add: TooFew_def)
    show ?thesis
    proof (cases "GetNumberOfTuples (h a) > num")
      case True
      from Cons.IH[OF tf, of "out @ [(WarningSeverity, el, (case n of None \<Rightarrow> [] | Some s \<Rightarrow> s), GetNumberOfTuples (h a), num)]"]
      obtain ws n' t where "CheckArrays h el num arrays (out @ [(WarningSeverity, el, (case n of None \<Rightarrow> [] | Some s \<Rightarrow> s), GetNumberOfTuples (h a), num)])
          = Inl ((out @ [(WarningSeverity, el, (case n of None \<Rightarrow> [] | Some s \<Rightarrow> s), GetNumberOfTuples (h a), num)]) @ ws @ [(ErrorSeverity, el, n', t, num)])"
         "t < num" "list_all (\<lambda>d. fst d = WarningSeverity) ws" by blast
      then show ?thesis using na False True
        by (auto simp: Let_def intro!: exI[of _ "(WarningSeverity, el, (case n of None \<Rightarrow> [] | Some s \<Rightarrow> s), GetNumberOfTuples (h a), num) # ws"])
    next
      case F2: False
      from Cons.IH[OF tf, of out] show ?thesis using na False F2 by (auto simp: Let_def)
    qed
  qed
qed

text \<open>
  C5. \<^verbatim>\<open>CheckAttributes\<close> returns 1 and reports an error when some point array has
  fewer tuples than there are points, or some cell array fewer than there are cells;
  otherwise it returns 0 and what it reports are the warnings for the arrays with more
  tuples than elements, and nothing else. It returns in every case, and the data set
  after the call is the data set before it.
\<close>

theorem CheckAttributes_severity:
  "fst (CheckAttributes ds) =
     (if TooFew (Heap ds) (GetNumberOfPoints ds) (Arrays (PointData ds))
         \<or> TooFew (Heap ds) (NumberOfCells ds) (Arrays (CellData ds)) then 1 else 0)
   \<and> list_ex (\<lambda>d. fst d = ErrorSeverity) (fst (snd (CheckAttributes ds))) =
       (TooFew (Heap ds) (GetNumberOfPoints ds) (Arrays (PointData ds))
         \<or> TooFew (Heap ds) (NumberOfCells ds) (Arrays (CellData ds)))
   \<and> (if TooFew (Heap ds) (GetNumberOfPoints ds) (Arrays (PointData ds))
         \<or> TooFew (Heap ds) (NumberOfCells ds) (Arrays (CellData ds)) then True
       else fst (snd (CheckAttributes ds)) =
              Warnings (Heap ds) PointElement (GetNumberOfPoints ds) (Arrays (PointData ds))
              @ Warnings (Heap ds) CellElement (NumberOfCells ds) (Arrays (CellData ds)))
   \<and> snd (snd (CheckAttributes ds)) = ds"
proof (cases "TooFew (Heap ds) (GetNumberOfPoints ds) (Arrays (PointData ds))")
  case True
  from CheckArrays_short[OF True, of PointElement "[]"]
  show ?thesis using True by (auto simp: CheckAttributes_def)
next
  case False
  note pt = CheckArrays_ok[OF False, of PointElement "[]"]
  have nw: "\<not> list_ex (\<lambda>d. fst d = ErrorSeverity) (Warnings h el num arrays)" for h el num arrays
    by (simp add: Warnings_def list_ex_iff)
  show ?thesis
  proof (cases "TooFew (Heap ds) (NumberOfCells ds) (Arrays (CellData ds))")
    case True
    from CheckArrays_short[OF True, of CellElement
        "Warnings (Heap ds) PointElement (GetNumberOfPoints ds) (Arrays (PointData ds))"]
    show ?thesis using True False pt by (auto simp: CheckAttributes_def)
  next
    case F2: False
    from CheckArrays_ok[OF F2, of CellElement
        "Warnings (Heap ds) PointElement (GetNumberOfPoints ds) (Arrays (PointData ds))"]
    show ?thesis using F2 False pt nw by (auto simp: CheckAttributes_def)
  qed
qed

theorem CheckAttributes_severity_witness:
  "fst (CheckAttributes (AttributesExample 4 2)) = 1
   \<and> list_ex (\<lambda>d. fst d = ErrorSeverity) (fst (snd (CheckAttributes (AttributesExample 4 2))))
   \<and> fst (CheckAttributes (AttributesExample 3 3)) = 1
   \<and> fst (CheckAttributes (AttributesExample 2 2)) = 0
   \<and> fst (snd (CheckAttributes (AttributesExample 2 2))) =
        [(WarningSeverity, PointElement, ''temperature'', 3, 2)]
   \<and> snd (snd (CheckAttributes (AttributesExample 2 2))) = AttributesExample 2 2"
  using CheckAttributes_severity [of "AttributesExample 4 2"]
    CheckAttributes_severity [of "AttributesExample 3 3"]
    CheckAttributes_severity [of "AttributesExample 2 2"]
  by (simp add: TooFew_def Warnings_def GetNumberOfPoints_def AttributesExample_def
      ScalarsExample_def NewDataSet_def NewFieldData_def)

section \<open>Properties of the cache stamps\<close>

lemma GetMTime_ComputeBounds: "GetMTime (ComputeBounds ex ds) = GetMTime ds"
  by (simp add: ComputeBounds_def GetMTime_def Let_def)

lemma GetMTime_ComputeScalarRange: "GetMTime (ComputeScalarRange ex ds) = GetMTime ds"
  by (simp add: ComputeScalarRange_def GetMTime_def Let_def)

lemma GlobalTime_ComputeBounds: "GlobalTime ds \<le> GlobalTime (ComputeBounds ex ds)"
  by (simp add: ComputeBounds_def Let_def TimeStampModified_def)

text \<open>
  C2, as the spec states it, asks that a recomputation stamps the cache with the value
  of the aggregate modification time read before it began. The source stamps with
  \<^verbatim>\<open>ComputeTime.Modified()\<close> and \<^verbatim>\<open>ScalarRangeComputeTime.Modified()\<close>, the next value
  of the global counter: on the example the aggregate time is 3 and the stamp after the
  query is 4, past the time that was observed.
\<close>

theorem stamp_is_not_the_snapshot:
  "ComputeTime (ScalarsExample None None) < GetMTime (ScalarsExample None None)
   \<and> ComputeTime (snd (GetBounds ExampleExternals (ScalarsExample None None)))
        \<noteq> GetMTime (ScalarsExample None None)
   \<and> ComputeTime (snd (GetBounds ExampleExternals (ScalarsExample None None)))
        > GetMTime (ScalarsExample None None)
   \<and> ScalarRangeComputeTime (snd (GetScalarRange ExampleExternals (ScalarsExample None None)))
        \<noteq> GetMTime (ScalarsExample None None)"
  by (simp add: GetBounds_def ComputeBounds_def GetScalarRange_def ComputeScalarRange_def Let_def
      GetMTime_def TimeStampModified_def ScalarsExample_def NewDataSet_def NewFieldData_def)

text \<open>
  C2, amended. For a data set whose clocks have been issued by the global counter, a
  query for the bounds or the scalar range returns the cached value, and changes
  nothing, when the stamp of the cache is at least the aggregate modification time;
  otherwise it recomputes and stamps the cache with the next value of the global
  counter, which is later than the aggregate time. Either way the aggregate time is
  left as it was and the stamp is not older than it afterwards.
\<close>

theorem cache_gating:
  assumes "GetMTime ds \<le> GlobalTime ds"
  shows "(if ComputeTime ds \<ge> GetMTime ds then GetBounds ex ds = (Bounds ds, ds)
          else fst (GetBounds ex ds) =
                 (if GetNumberOfPoints ds \<noteq> 0 then BoundsFor ex ds (GetNumberOfPoints ds)
                  else UninitializeBounds)
               \<and> ComputeTime (snd (GetBounds ex ds)) = TimeStampModified (GlobalTime ds)
               \<and> ComputeTime (snd (GetBounds ex ds)) > GetMTime ds)
       \<and> GetMTime (snd (GetBounds ex ds)) = GetMTime ds
       \<and> ComputeTime (snd (GetBounds ex ds)) \<ge> GetMTime (snd (GetBounds ex ds))
       \<and> (if ScalarRangeComputeTime ds \<ge> GetMTime ds
           then GetScalarRange ex ds = (ScalarRange ds, ds)
           else ScalarRangeComputeTime (snd (GetScalarRange ex ds)) = TimeStampModified (GlobalTime ds)
               \<and> ScalarRangeComputeTime (snd (GetScalarRange ex ds)) > GetMTime ds)
       \<and> GetMTime (snd (GetScalarRange ex ds)) = GetMTime ds
       \<and> ScalarRangeComputeTime (snd (GetScalarRange ex ds)) \<ge> GetMTime (snd (GetScalarRange ex ds))"
proof -
  have b: "snd (GetBounds ex ds) = ComputeBounds ex ds" "fst (GetBounds ex ds) = Bounds (ComputeBounds ex ds)"
    and r: "snd (GetScalarRange ex ds) = ComputeScalarRange ex ds"
      "fst (GetScalarRange ex ds) = ScalarRange (ComputeScalarRange ex ds)"
    by (simp_all add: GetBounds_def GetScalarRange_def Let_def)
  have 1: "if ComputeTime ds \<ge> GetMTime ds then ComputeBounds ex ds = ds
           else Bounds (ComputeBounds ex ds) =
                 (if GetNumberOfPoints ds \<noteq> 0 then BoundsFor ex ds (GetNumberOfPoints ds)
                  else UninitializeBounds)
               \<and> ComputeTime (ComputeBounds ex ds) = TimeStampModified (GlobalTime ds)
               \<and> ComputeTime (ComputeBounds ex ds) > GetMTime ds"
    using assms by (simp add: ComputeBounds_def Let_def TimeStampModified_def)
  have 2: "if ScalarRangeComputeTime ds \<ge> GetMTime ds then ComputeScalarRange ex ds = ds
           else ScalarRangeComputeTime (ComputeScalarRange ex ds) = TimeStampModified (GlobalTime ds)
               \<and> ScalarRangeComputeTime (ComputeScalarRange ex ds) > GetMTime ds"
    using assms by (simp add: ComputeScalarRange_def Let_def TimeStampModified_def)
  have 3: "ComputeTime (ComputeBounds ex ds) \<ge> GetMTime ds"
    using 1 by (auto split: if_splits)
  have 4: "ScalarRangeComputeTime (ComputeScalarRange ex ds) \<ge> GetMTime ds"
    using 2 by (auto split: if_splits)
  have 5: "GetBounds ex ds = (fst (GetBounds ex ds), snd (GetBounds ex ds))"
    "GetScalarRange ex ds = (fst (GetScalarRange ex ds), snd (GetScalarRange ex ds))"
    by simp_all
  show ?thesis
    using 1 2 3 4
    by (auto simp: b r prod_eq_iff GetMTime_ComputeBounds GetMTime_ComputeScalarRange)
qed

theorem cache_gating_witness:
  "GetMTime (ScalarsExample None None) \<le> GlobalTime (ScalarsExample None None)
   \<and> ComputeTime (snd (GetBounds ExampleExternals (ScalarsExample None None))) = 4
   \<and> GetBounds ExampleExternals (snd (GetBounds ExampleExternals (ScalarsExample None None)))
       = (Bounds (snd (GetBounds ExampleExternals (ScalarsExample None None))),
          snd (GetBounds ExampleExternals (ScalarsExample None None)))"
proof -
  let ?D = "ScalarsExample None None"
  let ?D' = "snd (GetBounds ExampleExternals ?D)"
  have h: "GetMTime ?D \<le> GlobalTime ?D"
    by (simp add: GetMTime_def TimeStampModified_def ScalarsExample_def NewDataSet_def NewFieldData_def)
  have c: "\<not> ComputeTime ?D \<ge> GetMTime ?D"
    by (simp add: GetMTime_def TimeStampModified_def ScalarsExample_def NewDataSet_def NewFieldData_def)
  have g: "GlobalTime ?D = 3"
    by (simp add: TimeStampModified_def ScalarsExample_def NewDataSet_def NewFieldData_def)
  from cache_gating [OF h, of ExampleExternals] c g
  have s: "ComputeTime ?D' = 4" "GetMTime ?D' = GetMTime ?D" "ComputeTime ?D' \<ge> GetMTime ?D'"
    by (simp_all add: TimeStampModified_def)
  have "GlobalTime ?D \<le> GlobalTime ?D'"
    by (simp add: GetBounds_def Let_def GlobalTime_ComputeBounds)
  with h s(2) have h': "GetMTime ?D' \<le> GlobalTime ?D'"
    by simp
  from cache_gating [OF h', of ExampleExternals] s(3)
  have "GetBounds ExampleExternals ?D' = (Bounds ?D', ?D')" by simp
  with h s(1) show ?thesis by simp
qed

section \<open>Properties of the ghost classification\<close>

lemma MarkAll_None: "MarkAll flag None ds = None"
  by (induction ds) (simp_all add: MarkAll_def)

lemma MarkAll_Some:
  "n \<le> length vs \<Longrightarrow>
   MarkAll flag (Some (vs, n)) ds =
     (if n + length ds \<le> length vs then Some (MarkFrom flag ds vs n, n + length ds) else None)"
proof (induction ds arbitrary: vs n)
  case Nil
  then show ?case by (simp add: MarkAll_def)
next
  case (Cons d ds)
  show ?case
  proof (cases "n < length vs")
    case True
    have "MarkAll flag (Some (vs, n)) (d # ds) =
          MarkAll flag (Some (vs[n := (if d > 0 then vs ! n OR flag else vs ! n)], n + 1)) ds"
      using True by (simp add: MarkAll_def MarkGhost_def Let_def)
    also have "\<dots> = (if n + 1 + length ds \<le> length vs
        then Some (MarkFrom flag ds (vs[n := (if d > 0 then vs ! n OR flag else vs ! n)]) (n + 1),
                   n + 1 + length ds) else None)"
      using True by (subst Cons.IH) simp_all
    finally show ?thesis by simp
  next
    case False
    then have "MarkAll flag (Some (vs, n)) (d # ds) = MarkAll flag None ds"
      by (simp add: MarkAll_def MarkGhost_def)
    then show ?thesis using False by (simp add: MarkAll_None)
  qed
qed

lemma MarkAll_append: "MarkAll flag (MarkAll flag st a) b = MarkAll flag st (a @ b)"
  by (simp add: MarkAll_def)

lemma MarkAll_map: "foldl (\<lambda>st x. Option.bind st (MarkGhost flag (g x))) st xs = MarkAll flag st (map g xs)"
  by (simp add: MarkAll_def foldl_map)

lemma MarkAll_concat: "foldl (\<lambda>st x. MarkAll flag st (h x)) st xs = MarkAll flag st (concat (map h xs))"
  by (induction xs arbitrary: st) (simp_all add: MarkAll_def)

lemma PointLoop_MarkAll:
  "PointLoop extent zeroExt vs =
     MarkAll DUPLICATEPOINT (Some (vs, 0)) (map (PointDist zeroExt) (ExtentPoints extent))"
  by (simp add: PointLoop_def Let_def MarkAll_map MarkAll_concat ExtentPoints_def PointDist_def
      map_concat comp_def)

lemma CellLoop_MarkAll:
  "CellLoop extent zeroExt vs =
     MarkAll DUPLICATECELL (Some (vs, 0)) (map (CellDist zeroExt) (ExtentCells extent))"
  by (simp add: CellLoop_def Let_def MarkAll_map MarkAll_concat ExtentCells_def CellDist_def
      map_concat comp_def)

lemma length_MarkFrom [simp]: "length (MarkFrom flag ds vs n) = length vs"
  by (induction ds arbitrary: vs n) simp_all

lemma nth_MarkFrom:
  "p < length vs \<Longrightarrow>
   MarkFrom flag ds vs n ! p =
     (if n \<le> p \<and> p < n + length ds \<and> ds ! (p - n) > 0 then vs ! p OR flag else vs ! p)"
proof (induction ds arbitrary: vs n)
  case Nil
  then show ?case by auto
next
  case (Cons d ds)
  show ?case
  proof (cases "p = n")
    case True
    then show ?thesis using Cons by simp
  next
    case False
    then show ?thesis using Cons by (auto simp: nth_Cons')
  qed
qed

lemma length_concat_uniform:
  "(\<And>x. x \<in> set xs \<Longrightarrow> length (f x) = m) \<Longrightarrow> length (concat (map f xs)) = length xs * m"
  by (induction xs) simp_all

lemma length_grid:
  "length (concat (map (\<lambda>k. concat (map (\<lambda>j. map (\<lambda>i. f i j k) [a..b]) [c..d])) [e..g]))
     = nat (b - a + 1) * nat (d - c + 1) * nat (g - e + 1)"
proof -
  have 1: "length (concat (map (\<lambda>j. map (\<lambda>i. f i j k) [a..b]) [c..d]))
        = nat (d - c + 1) * nat (b - a + 1)" for k
    by (subst length_concat_uniform [where m = "nat (b - a + 1)"]) simp_all
  show ?thesis
    by (subst length_concat_uniform [where m = "nat (d - c + 1) * nat (b - a + 1)"])
       (simp_all add: 1 mult_ac)
qed

lemma length_ExtentPoints: "length (ExtentPoints ext) = StructuredGetNumberOfPoints ext"
  unfolding ExtentPoints_def StructuredGetNumberOfPoints_def by (rule length_grid)

lemma length_ExtentCells:
  "length (ExtentCells ext) =
     nat (ext ! 1 - ext ! 0) * nat (ext ! 3 - ext ! 2) * nat (ext ! 5 - ext ! 4)"
  unfolding ExtentCells_def by (simp only: length_grid) simp

lemma GetArray_SetArray: "GetArray (SetArray arrs (Some n) a) n = Some a"
  by (induction arrs) auto

lemma GetArray_SetArray_other: "m \<noteq> Some n \<Longrightarrow> GetArray (SetArray arrs m a) n = GetArray arrs n"
  by (induction arrs) auto

lemma PointLoop_eq:
  "PointLoop extent zeroExt vs =
     (if StructuredGetNumberOfPoints extent \<le> length vs
      then Some (MarkFrom DUPLICATEPOINT (map (PointDist zeroExt) (ExtentPoints extent)) vs 0,
                 StructuredGetNumberOfPoints extent)
      else None)"
  by (simp add: PointLoop_MarkAll MarkAll_Some length_ExtentPoints)

lemma CellLoop_eq:
  "CellLoop extent zeroExt vs =
     (if length (ExtentCells extent) \<le> length vs
      then Some (MarkFrom DUPLICATECELL (map (CellDist zeroExt) (ExtentCells extent)) vs 0,
                 length (ExtentCells extent))
      else None)"
  by (simp add: CellLoop_MarkAll MarkAll_Some)

lemma GhostPoints_eq:
  "GhostPoints extent zeroExt ds =
     (case GetGhostArray (Heap ds) (PointData ds) of
        Some p \<Rightarrow>
          if StructuredGetNumberOfPoints extent \<le> length (UCharValues (Heap ds p))
          then Some (ds\<lparr>Heap := (Heap ds)(p := UnsignedCharArray
                        (MarkFrom DUPLICATEPOINT (map (PointDist zeroExt) (ExtentPoints extent))
                           (UCharValues (Heap ds p)) 0))\<rparr>)
          else None
      | None \<Rightarrow>
          Some ((PointDataAddArray (Some GhostArrayName) (NextAddr ds)
                  (snd (NewUCharArray (replicate (StructuredGetNumberOfPoints extent) 0) ds)))
                \<lparr>Heap := (Heap ds)(NextAddr ds := UnsignedCharArray
                        (MarkFrom DUPLICATEPOINT (map (PointDist zeroExt) (ExtentPoints extent))
                           (replicate (StructuredGetNumberOfPoints extent) 0) 0))\<rparr>))"
  by (simp add: GhostPoints_def GetGhostArray_def PointLoop_eq NewUCharArray_def
      PointDataAddArray_def OnDataModified_def UpdatePointGhostArrayCache_def Let_def
      split: option.splits)







lemma list6: "length xs = 6 \<Longrightarrow> \<exists>a b c d e f. xs = [a, b, c, d, e, f]"
  by (auto simp: eval_nat_numeral length_Suc_conv)

lemma Inflate_eq:
  assumes "length e = 6" "length z = 6"
  shows "InflateAxis 2 (InflateAxis 1 (InflateAxis 0 (e, z))) = (InflateUpper e e, InflateUpper e z)"
proof -
  obtain e0 e1 e2 e3 e4 e5 where e: "e = [e0, e1, e2, e3, e4, e5]" using list6[OF assms(1)] by blast
  obtain z0 z1 z2 z3 z4 z5 where z: "z = [z0, z1, z2, z3, z4, z5]" using list6[OF assms(2)] by blast
  show ?thesis unfolding e z by (simp add: InflateAxis_def InflateUpper_def)
qed

lemma sameExtent_iff:
  assumes "length e = 6" "length z = 6"
  shows "list_all (\<lambda>i. e ! i = z ! i) [0..<6] = (e = z)"
proof -
  obtain e0 e1 e2 e3 e4 e5 where e: "e = [e0, e1, e2, e3, e4, e5]" using list6[OF assms(1)] by blast
  obtain z0 z1 z2 z3 z4 z5 where z: "z = [z0, z1, z2, z3, z4, z5]" using list6[OF assms(2)] by blast
  show ?thesis unfolding e z by (auto simp: upt_rec)
qed

lemma length_ExtentCells_Inflate:
  assumes "length e = 6"
  shows "length (ExtentCells (InflateUpper e e)) \<le> StructuredGetNumberOfCells e"
proof -
  obtain e0 e1 e2 e3 e4 e5 where e: "e = [e0, e1, e2, e3, e4, e5]" using list6[OF assms(1)] by blast
  have 1: "nat (InflateUpper e e ! 1 - InflateUpper e e ! 0) \<le> nat (max (e ! 1 - e ! 0) 1)"
    unfolding e by (auto simp: InflateUpper_def)
  have 2: "nat (InflateUpper e e ! 3 - InflateUpper e e ! 2) \<le> nat (max (e ! 3 - e ! 2) 1)"
    unfolding e by (auto simp: InflateUpper_def)
  have 3: "nat (InflateUpper e e ! 5 - InflateUpper e e ! 4) \<le> nat (max (e ! 5 - e ! 4) 1)"
    unfolding e by (auto simp: InflateUpper_def)
  show ?thesis
    unfolding length_ExtentCells StructuredGetNumberOfCells_def
    by (intro mult_le_mono 1 2 3)
qed

lemma GhostCells_eq:
  assumes "length extent = 6" "length zeroExt = 6"
  shows "GhostCells extent zeroExt ds =
     (case GetGhostArray (Heap ds) (CellData ds) of
        Some p \<Rightarrow>
          if length (ExtentCells (InflateUpper extent extent)) \<le> length (UCharValues (Heap ds p))
          then Some (ds\<lparr>Heap := (Heap ds)(p := UnsignedCharArray
                        (MarkFrom DUPLICATECELL
                           (map (CellDist (InflateUpper extent zeroExt)) (ExtentCells (InflateUpper extent extent)))
                           (UCharValues (Heap ds p)) 0))\<rparr>, InflateUpper extent zeroExt)
          else None
      | None \<Rightarrow>
          Some ((CellDataAddArray (Some GhostArrayName) (NextAddr ds)
                  (snd (NewUCharArray (replicate (StructuredGetNumberOfCells extent) 0) ds)))
                \<lparr>Heap := (Heap ds)(NextAddr ds := UnsignedCharArray
                        (MarkFrom DUPLICATECELL
                           (map (CellDist (InflateUpper extent zeroExt)) (ExtentCells (InflateUpper extent extent)))
                           (replicate (StructuredGetNumberOfCells extent) 0) 0))\<rparr>,
                InflateUpper extent zeroExt))"
  using length_ExtentCells_Inflate[OF assms(1)]
  unfolding GhostCells_def Inflate_eq[OF assms]
  by (simp add: GetGhostArray_def CellLoop_eq NewUCharArray_def
      CellDataAddArray_def OnDataModified_def UpdateCellGhostArrayCache_def Let_def
      split: option.splits)

lemma DownCast_upd:
  "DownCastUChar (h(a := UnsignedCharArray vs)) q = (if q = Some a then Some a else DownCastUChar h q)"
  by (auto simp: DownCastUChar_def split: option.splits vtkArray.splits)

lemma DownCast_Some: "DownCastUChar h q = Some a \<Longrightarrow> q = Some a \<and> (\<exists>vs. h a = UnsignedCharArray vs)"
  by (auto simp: DownCastUChar_def split: option.splits vtkArray.splits)

lemma GetArray_less: "GetArray arrs n = Some a \<Longrightarrow> list_all (\<lambda>na. snd na < N) arrs \<Longrightarrow> a < N"
  by (induction arrs) (auto split: if_splits)

lemma GhostPoints_step:
  assumes "StructuredGetNumberOfPoints extent
             \<le> length (GhostOld (Heap ds) (PointData ds) (StructuredGetNumberOfPoints extent))"
  shows "\<exists>ds1. GhostPoints extent zeroExt ds = Some ds1
     \<and> Heap ds1 = (Heap ds)(GhostAddr (Heap ds) (PointData ds) (NextAddr ds) :=
         UnsignedCharArray (MarkFrom DUPLICATEPOINT (map (PointDist zeroExt) (ExtentPoints extent))
            (GhostOld (Heap ds) (PointData ds) (StructuredGetNumberOfPoints extent)) 0))
     \<and> GetGhostArray (Heap ds1) (PointData ds1) = Some (GhostAddr (Heap ds) (PointData ds) (NextAddr ds))
     \<and> CellData ds1 = CellData ds
     \<and> NextAddr ds1 = (if GetGhostArray (Heap ds) (PointData ds) = None then NextAddr ds + 1 else NextAddr ds)
     \<and> DATA_EXTENT ds1 = DATA_EXTENT ds \<and> ExtentKind ds1 = ExtentKind ds
     \<and> Points ds1 = Points ds \<and> NumberOfCells ds1 = NumberOfCells ds
     \<and> Arrays (PointData ds1) =
          (if GetGhostArray (Heap ds) (PointData ds) = None
           then SetArray (Arrays (PointData ds)) (Some GhostArrayName) (NextAddr ds)
           else Arrays (PointData ds))"
proof (cases "GetGhostArray (Heap ds) (PointData ds)")
  case None
  then show ?thesis
    by (simp add: GhostPoints_eq GhostAddr_def GhostOld_def GetGhostArray_def DownCast_upd
        PointDataAddArray_def OnDataModified_def UpdatePointGhostArrayCache_def Let_def
        NewUCharArray_def FieldAddArray_def GetArray_SetArray)
next
  case (Some p)
  then have "GetArray (Arrays (PointData ds)) GhostArrayName = Some p"
    by (auto simp: GetGhostArray_def dest: DownCast_Some)
  then show ?thesis using Some assms
    by (simp add: GhostPoints_eq GhostAddr_def GhostOld_def GetGhostArray_def DownCast_upd)
qed

lemma GhostCells_step:
  assumes "length extent = 6" "length zeroExt = 6"
    and "StructuredGetNumberOfCells extent
             \<le> length (GhostOld (Heap ds) (CellData ds) (StructuredGetNumberOfCells extent))"
  shows "\<exists>ds1. GhostCells extent zeroExt ds = Some (ds1, InflateUpper extent zeroExt)
     \<and> Heap ds1 = (Heap ds)(GhostAddr (Heap ds) (CellData ds) (NextAddr ds) :=
         UnsignedCharArray (MarkFrom DUPLICATECELL
            (map (CellDist (InflateUpper extent zeroExt)) (ExtentCells (InflateUpper extent extent)))
            (GhostOld (Heap ds) (CellData ds) (StructuredGetNumberOfCells extent)) 0))
     \<and> GetGhostArray (Heap ds1) (CellData ds1) = Some (GhostAddr (Heap ds) (CellData ds) (NextAddr ds))
     \<and> PointData ds1 = PointData ds
     \<and> NextAddr ds1 = (if GetGhostArray (Heap ds) (CellData ds) = None then NextAddr ds + 1 else NextAddr ds)
     \<and> DATA_EXTENT ds1 = DATA_EXTENT ds \<and> ExtentKind ds1 = ExtentKind ds
     \<and> Points ds1 = Points ds \<and> NumberOfCells ds1 = NumberOfCells ds
     \<and> Arrays (CellData ds1) =
          (if GetGhostArray (Heap ds) (CellData ds) = None
           then SetArray (Arrays (CellData ds)) (Some GhostArrayName) (NextAddr ds)
           else Arrays (CellData ds))"
proof (cases "GetGhostArray (Heap ds) (CellData ds)")
  case None
  then show ?thesis
    by (simp add: GhostCells_eq[OF assms(1,2)] GhostAddr_def GhostOld_def GetGhostArray_def DownCast_upd
        CellDataAddArray_def OnDataModified_def UpdateCellGhostArrayCache_def Let_def
        NewUCharArray_def FieldAddArray_def GetArray_SetArray)
next
  case (Some p)
  then have "GetArray (Arrays (CellData ds)) GhostArrayName = Some p"
    by (auto simp: GetGhostArray_def dest: DownCast_Some)
  moreover have "length (ExtentCells (InflateUpper extent extent)) \<le> length (UCharValues (Heap ds p))"
    using length_ExtentCells_Inflate[OF assms(1)] assms(3) Some by (simp add: GhostOld_def)
  ultimately show ?thesis using Some
    by (simp add: GhostCells_eq[OF assms(1,2)] GhostAddr_def GhostOld_def GetGhostArray_def DownCast_upd)
qed

lemma GenerateGhostArray_noop:
  assumes "length (DATA_EXTENT ds) = 6" and "length zeroExt = 6"
    and "\<not> (ExtentKind ds = VTK_3D_EXTENT \<and> DATA_EXTENT ds \<noteq> zeroExt)"
  shows "GenerateGhostArray zeroExt cellOnly ds = Some (ds, zeroExt)"
proof (cases "ExtentKind ds = VTK_3D_EXTENT")
  case True
  with assms(3) have "DATA_EXTENT ds = zeroExt" by simp
  then have "list_all (\<lambda>i. DATA_EXTENT ds ! i = zeroExt ! i) [0..<6]"
    by (simp add: list_all_iff)
  then show ?thesis by (simp add: GenerateGhostArray_def Let_def)
next
  case False
  then show ?thesis by (simp add: GenerateGhostArray_def)
qed

lemma GenerateGhostArray_run:
  assumes "length (DATA_EXTENT ds) = 6" and "length zeroExt = 6"
    and "ExtentKind ds = VTK_3D_EXTENT" and "DATA_EXTENT ds \<noteq> zeroExt"
  shows "GenerateGhostArray zeroExt cellOnly ds =
     (case (if \<not> cellOnly then GhostPoints (DATA_EXTENT ds) zeroExt ds else Some ds) of
        None \<Rightarrow> None
      | Some ds1 \<Rightarrow> GhostCells (DATA_EXTENT ds) zeroExt ds1)"
  using assms(3,4) by (simp add: GenerateGhostArray_def sameExtent_iff[OF assms(1,2)] Let_def)

text \<open>
  C9. \<^verbatim>\<open>GenerateGhostArray\<close> changes the array \<^verbatim>\<open>zeroExt\<close> of its caller: when the
  cell pass runs (the data set is structured and its extent differs from \<^verbatim>\<open>zeroExt\<close>),
  the upper bound of every axis on which the extent of the data set has no extension
  is one more after the call, and nothing else of the array changes. When the call
  returns early the array is as it was.
\<close>

theorem GenerateGhostArray_zeroExt:
  assumes "length (DATA_EXTENT ds) = 6" and "length zeroExt = 6"
    and "GenerateGhostArray zeroExt cellOnly ds = Some (ds', z')"
  shows "z' =
     (if ExtentKind ds = VTK_3D_EXTENT \<and> DATA_EXTENT ds \<noteq> zeroExt
      then [zeroExt ! 0,
            (if DATA_EXTENT ds ! 0 = DATA_EXTENT ds ! 1 then zeroExt ! 1 + 1 else zeroExt ! 1),
            zeroExt ! 2,
            (if DATA_EXTENT ds ! 2 = DATA_EXTENT ds ! 3 then zeroExt ! 3 + 1 else zeroExt ! 3),
            zeroExt ! 4,
            (if DATA_EXTENT ds ! 4 = DATA_EXTENT ds ! 5 then zeroExt ! 5 + 1 else zeroExt ! 5)]
      else zeroExt)"
proof (cases "ExtentKind ds = VTK_3D_EXTENT \<and> DATA_EXTENT ds \<noteq> zeroExt")
  case False
  have "z' = zeroExt"
    using assms(3) GenerateGhostArray_noop[OF assms(1,2) False, of cellOnly] by simp
  then show ?thesis by (simp only: False if_False)
next
  case True
  then obtain ds1 where "GhostCells (DATA_EXTENT ds) zeroExt ds1 = Some (ds', z')"
    using assms(3) GenerateGhostArray_run[OF assms(1,2), of cellOnly]
    by (auto split: option.splits if_splits)
  then have "z' = InflateUpper (DATA_EXTENT ds) zeroExt"
    by (auto simp: GhostCells_eq[OF assms(1,2)] split: option.splits if_splits)
  then show ?thesis using True by (simp add: InflateUpper_def)
qed


lemma PointAxisDist_eq: "lo \<le> hi + 1 \<Longrightarrow> PointAxisDist lo hi a = SpecAxisDist lo hi a"
  by (auto simp: PointAxisDist_def SpecAxisDist_def Let_def)

lemma CombineDist_max: "CombineDist a b c = max a (max b c)"
  by (auto simp: CombineDist_def Let_def)


lemma PointDist_eq:
  "zeroExt ! 0 \<le> zeroExt ! 1 + 1 \<Longrightarrow> zeroExt ! 2 \<le> zeroExt ! 3 + 1 \<Longrightarrow> zeroExt ! 4 \<le> zeroExt ! 5 + 1
   \<Longrightarrow> PointDist zeroExt p = ChebyshevDist zeroExt p"
  by (cases p) (simp add: PointDist_def ChebyshevDist_def CombineDist_max PointAxisDist_eq)

lemma GetGhostArray_Some_GetArray:
  "GetGhostArray h fd = Some a \<Longrightarrow> GetArray (Arrays fd) GhostArrayName = Some a"
  by (auto simp: GetGhostArray_def dest: DownCast_Some)

lemma GetGhostArray_upd:
  "GetGhostArray (h(a := UnsignedCharArray vs)) fd =
     (if GetArray (Arrays fd) GhostArrayName = Some a then Some a else GetGhostArray h fd)"
  by (simp add: GetGhostArray_def DownCast_upd)

lemma GhostAddr_less:
  "GetGhostArray h fd \<noteq> None \<Longrightarrow> list_all (\<lambda>na. snd na < N) (Arrays fd) \<Longrightarrow> GhostAddr h fd fresh < N"
proof -
  assume "GetGhostArray h fd \<noteq> None" and l: "list_all (\<lambda>na. snd na < N) (Arrays fd)"
  then obtain p where p: "GetGhostArray h fd = Some p" by auto
  from GetArray_less[OF GetGhostArray_Some_GetArray[OF p] l] p
  show ?thesis by (simp add: GhostAddr_def)
qed

text \<open>After the point pass the cell ghost array is where it was and as long as it was.\<close>

lemma cells_after_points:
  assumes "Allocated ds"
    and h1: "h1 = (Heap ds)(GhostAddr (Heap ds) (PointData ds) (NextAddr ds) := UnsignedCharArray new)"
    and len: "length new = length (GhostOld (Heap ds) (PointData ds) n)"
  shows "GetGhostArray h1 (CellData ds) = GetGhostArray (Heap ds) (CellData ds)"
    and "length (GhostOld h1 (CellData ds) m) = length (GhostOld (Heap ds) (CellData ds) m)"
proof -
  let ?ap = "GhostAddr (Heap ds) (PointData ds) (NextAddr ds)"
  have cd: "list_all (\<lambda>na. snd na < NextAddr ds) (Arrays (CellData ds))"
    using assms(1) by (simp add: Allocated_def)
  show g: "GetGhostArray h1 (CellData ds) = GetGhostArray (Heap ds) (CellData ds)"
  proof (cases "GetArray (Arrays (CellData ds)) GhostArrayName = Some ?ap")
    case False
    then show ?thesis by (simp add: h1 GetGhostArray_upd)
  next
    case True
    then have lt: "?ap < NextAddr ds" using cd by (rule GetArray_less)
    then obtain p where p: "GetGhostArray (Heap ds) (PointData ds) = Some p"
      by (cases "GetGhostArray (Heap ds) (PointData ds)") (auto simp: GhostAddr_def)
    then have "?ap = p" by (simp add: GhostAddr_def)
    moreover obtain vs where "Heap ds p = UnsignedCharArray vs"
      using p by (auto simp: GetGhostArray_def dest: DownCast_Some)
    ultimately have "GetGhostArray (Heap ds) (CellData ds) = Some ?ap"
      using True by (simp add: GetGhostArray_def DownCastUChar_def)
    then show ?thesis using True by (simp add: h1 GetGhostArray_upd)
  qed
  show "length (GhostOld h1 (CellData ds) m) = length (GhostOld (Heap ds) (CellData ds) m)"
  proof (cases "GetGhostArray (Heap ds) (CellData ds)")
    case None
    then show ?thesis using g by (simp add: GhostOld_def)
  next
    case (Some c)
    show ?thesis
    proof (cases "c = ?ap")
      case False
      then show ?thesis using g Some by (simp add: GhostOld_def h1)
    next
      case True
      from Some have "GetArray (Arrays (CellData ds)) GhostArrayName = Some c"
        by (rule GetGhostArray_Some_GetArray)
      then have "c < NextAddr ds" using cd by (rule GetArray_less)
      then obtain p where p: "GetGhostArray (Heap ds) (PointData ds) = Some p"
        using True by (cases "GetGhostArray (Heap ds) (PointData ds)") (auto simp: GhostAddr_def)
      then have "p = c" using True by (simp add: GhostAddr_def)
      then show ?thesis using g Some p True len by (simp add: GhostOld_def h1)
    qed
  qed
qed

lemma GenerateGhostArray_points_cells:
  assumes kind: "ExtentKind ds = VTK_3D_EXTENT"
    and le: "length (DATA_EXTENT ds) = 6" and lz: "length zeroExt = 6"
    and ne: "DATA_EXTENT ds \<noteq> zeroExt"
    and al: "Allocated ds"
    and room: "GhostRoom False ds"
  obtains ds1 :: vtkDataSet and ds' :: vtkDataSet where "GenerateGhostArray zeroExt False ds = Some (ds', InflateUpper (DATA_EXTENT ds) zeroExt)"
    and "Heap ds1 = (Heap ds)(GhostAddr (Heap ds) (PointData ds) (NextAddr ds) :=
         UnsignedCharArray (MarkFrom DUPLICATEPOINT (map (PointDist zeroExt) (ExtentPoints (DATA_EXTENT ds)))
            (GhostOld (Heap ds) (PointData ds) (StructuredGetNumberOfPoints (DATA_EXTENT ds))) 0))"
    and "GetGhostArray (Heap ds1) (PointData ds1) = Some (GhostAddr (Heap ds) (PointData ds) (NextAddr ds))"
    and "GetGhostArray (Heap ds1) (CellData ds) = GetGhostArray (Heap ds) (CellData ds)"
    and "NextAddr ds1 = (if GetGhostArray (Heap ds) (PointData ds) = None then NextAddr ds + 1 else NextAddr ds)"
    and "Heap ds' = (Heap ds1)(GhostAddr (Heap ds1) (CellData ds) (NextAddr ds1) :=
         UnsignedCharArray (MarkFrom DUPLICATECELL
            (map (CellDist (InflateUpper (DATA_EXTENT ds) zeroExt))
                 (ExtentCells (InflateUpper (DATA_EXTENT ds) (DATA_EXTENT ds))))
            (GhostOld (Heap ds1) (CellData ds) (StructuredGetNumberOfCells (DATA_EXTENT ds))) 0))"
    and "GetGhostArray (Heap ds') (CellData ds') = Some (GhostAddr (Heap ds1) (CellData ds) (NextAddr ds1))"
    and "PointData ds' = PointData ds1"
proof -
  let ?e = "DATA_EXTENT ds"
  let ?np = "StructuredGetNumberOfPoints ?e" and ?nc = "StructuredGetNumberOfCells ?e"
  let ?new = "MarkFrom DUPLICATEPOINT (map (PointDist zeroExt) (ExtentPoints ?e))
            (GhostOld (Heap ds) (PointData ds) ?np) 0"
  have rp: "?np \<le> length (GhostOld (Heap ds) (PointData ds) ?np)"
    and rc: "?nc \<le> length (GhostOld (Heap ds) (CellData ds) ?nc)"
    using room by (simp_all add: GhostRoom_def)
  from GhostPoints_step[OF rp, of zeroExt] obtain ds1 where
    gp: "GhostPoints ?e zeroExt ds = Some ds1"
    and h1: "Heap ds1 = (Heap ds)(GhostAddr (Heap ds) (PointData ds) (NextAddr ds) := UnsignedCharArray ?new)"
    and g1: "GetGhostArray (Heap ds1) (PointData ds1) = Some (GhostAddr (Heap ds) (PointData ds) (NextAddr ds))"
    and c1: "CellData ds1 = CellData ds"
    and n1: "NextAddr ds1 = (if GetGhostArray (Heap ds) (PointData ds) = None then NextAddr ds + 1 else NextAddr ds)"
    and e1: "DATA_EXTENT ds1 = DATA_EXTENT ds"
    by blast
  have ln: "length ?new = length (GhostOld (Heap ds) (PointData ds) ?np)" by simp
  note ca = cells_after_points[OF al h1 ln]
  have rc1: "?nc \<le> length (GhostOld (Heap ds1) (CellData ds1) ?nc)"
    using rc ca(2)[of ?nc] by (simp add: c1)
  from GhostCells_step[OF le lz rc1] obtain ds' where
    gc: "GhostCells ?e zeroExt ds1 = Some (ds', InflateUpper ?e zeroExt)"
    and h2: "Heap ds' = (Heap ds1)(GhostAddr (Heap ds1) (CellData ds1) (NextAddr ds1) :=
         UnsignedCharArray (MarkFrom DUPLICATECELL
            (map (CellDist (InflateUpper ?e zeroExt)) (ExtentCells (InflateUpper ?e ?e)))
            (GhostOld (Heap ds1) (CellData ds1) ?nc) 0))"
    and g2: "GetGhostArray (Heap ds') (CellData ds') = Some (GhostAddr (Heap ds1) (CellData ds1) (NextAddr ds1))"
    and p2: "PointData ds' = PointData ds1"
    by blast
  have r: "GenerateGhostArray zeroExt False ds = Some (ds', InflateUpper ?e zeroExt)"
    using gp gc by (simp add: GenerateGhostArray_run[OF le lz kind ne])
  note f = r h1 g1 ca(1) n1 h2[unfolded c1] g2[unfolded c1] p2
  show ?thesis
    by (rule that) (rule f)+
qed


lemma GridExample_fields:
  "ExtentKind GridExample = VTK_3D_EXTENT" "DATA_EXTENT GridExample = [0, 4, 0, 4, 0, 0]"
  "NextAddr GridExample = 0" "Arrays (PointData GridExample) = []" "Arrays (CellData GridExample) = []"
  by (simp_all add: GridExample_def NewDataSet_def NewFieldData_def)

lemma GridExample_ghosts:
  "GetGhostArray (Heap GridExample) (PointData GridExample) = None"
  "GetGhostArray (Heap GridExample) (CellData GridExample) = None"
  by (simp_all add: GetGhostArray_def DownCastUChar_def GridExample_fields)

lemma GridExample_hyps:
  "Allocated GridExample" "GhostRoom False GridExample" "GhostRoom True GridExample"
  by (simp_all add: Allocated_def GhostRoom_def GhostOld_def GridExample_fields GridExample_ghosts)

lemma GridExample_run:
  "map_option (\<lambda>dz. (UCharValues (Heap (fst dz) 0), UCharValues (Heap (fst dz) 1), snd dz))
     (GenerateGhostArray [1, 3, 1, 3, 0, 0] False GridExample)
   = Some ([1, 1, 1, 1, 1,  1, 0, 0, 0, 1,  1, 0, 0, 0, 1,  1, 0, 0, 0, 1,  1, 1, 1, 1, 1],
           [1, 1, 1, 1,  1, 0, 0, 1,  1, 0, 0, 1,  1, 1, 1, 1],
           [1, 3, 1, 3, 0, 1])"
  by code_simp


theorem GenerateGhostArray_zeroExt_witness:
  "map_option snd (GenerateGhostArray [1, 3, 1, 3, 0, 0] False GridExample) = Some [1, 3, 1, 3, 0, 1]"
proof -
  obtain ds' z' where r: "GenerateGhostArray [1, 3, 1, 3, 0, 0] False GridExample = Some (ds', z')"
    using GridExample_run
    by (cases "GenerateGhostArray [1, 3, 1, 3, 0, 0] False GridExample") auto
  have l: "length (DATA_EXTENT GridExample) = 6" "length [1, 3, 1, 3, 0, 0 :: int] = 6"
    by (simp_all add: GridExample_fields)
  from GenerateGhostArray_zeroExt [OF l r] have "z' = [1, 3, 1, 3, 0, 1]"
    by (simp add: GridExample_fields)
  with r show ?thesis by simp
qed

lemma BitsKept_refl: "BitsKept vs vs"
  by (simp add: BitsKept_def list_all2_conv_all_nth)

lemma and_kept_trans:
  fixes v v' v'' :: uchar
  assumes "v' AND v = v" "v'' AND v' = v'"
  shows "v'' AND v = v"
proof -
  have "v'' AND v = v'' AND (v' AND v)" using assms by simp
  also have "\<dots> = (v'' AND v') AND v" by (simp add: and.assoc)
  also have "\<dots> = v" using assms by simp
  finally show ?thesis .
qed

lemma BitsKept_trans:
  assumes "BitsKept a b" "BitsKept b c"
  shows "BitsKept a c"
proof -
  have l: "length a = length b" "length b = length c"
    using assms by (simp_all add: BitsKept_def list_all2_lengthD)
  have "c ! i AND a ! i = a ! i" if "i < length a" for i
  proof -
    have "b ! i AND a ! i = a ! i" using assms(1) that by (simp add: BitsKept_def list_all2_conv_all_nth)
    moreover have "c ! i AND b ! i = b ! i" using assms(2) that l by (simp add: BitsKept_def list_all2_conv_all_nth)
    ultimately show ?thesis by (rule and_kept_trans)
  qed
  then show ?thesis using l by (simp add: BitsKept_def list_all2_conv_all_nth)
qed

lemma BitsKept_MarkFrom: "BitsKept vs (MarkFrom flag ds vs n)"
  by (simp add: BitsKept_def list_all2_conv_all_nth nth_MarkFrom word_ao_absorbs)

lemma ArrayKept_refl: "ArrayKept a a"
  by (cases a) (simp_all add: ArrayKept_def BitsKept_refl)

lemma ArrayKept_trans: "ArrayKept a b \<Longrightarrow> ArrayKept b c \<Longrightarrow> ArrayKept a c"
  by (cases a; cases b; cases c) (auto simp: ArrayKept_def dest: BitsKept_trans)

lemma HeapKept_trans: "HeapKept bound h h1 \<Longrightarrow> HeapKept bound h1 h2 \<Longrightarrow> HeapKept bound h h2"
  unfolding HeapKept_def list_all_iff by (blast intro: ArrayKept_trans)

lemma HeapKept_step:
  assumes "bound \<le> fresh"
  shows "HeapKept bound h (h(GhostAddr h fd fresh := UnsignedCharArray (MarkFrom flag ds (GhostOld h fd n) 0)))"
proof (cases "GetGhostArray h fd")
  case None
  then show ?thesis using assms
    by (auto simp: HeapKept_def list_all_iff GhostAddr_def ArrayKept_refl)
next
  case (Some p)
  then obtain vs where "h p = UnsignedCharArray vs"
    by (auto simp: GetGhostArray_def dest: DownCast_Some)
  then have "ArrayKept (h p) (UnsignedCharArray (MarkFrom flag ds vs 0))"
    by (simp add: ArrayKept_def BitsKept_MarkFrom)
  then have "ArrayKept (h b) ((h(p := UnsignedCharArray (MarkFrom flag ds vs 0))) b)" for b
    by (simp add: ArrayKept_refl)
  then show ?thesis using Some \<open>h p = UnsignedCharArray vs\<close>
    by (simp add: HeapKept_def list_all_iff GhostAddr_def GhostOld_def)
qed

lemma fresh_entries:
  "list_all (\<lambda>v. v = 0 \<or> v = flag) (MarkFrom flag ds (replicate n 0) 0)"
  by (auto simp: list_all_length nth_MarkFrom)

lemma GenerateGhostArray_cells_only:
  assumes kind: "ExtentKind ds = VTK_3D_EXTENT"
    and le: "length (DATA_EXTENT ds) = 6" and lz: "length zeroExt = 6"
    and ne: "DATA_EXTENT ds \<noteq> zeroExt"
    and room: "GhostRoom True ds"
  obtains ds' :: vtkDataSet where
    "GenerateGhostArray zeroExt True ds = Some (ds', InflateUpper (DATA_EXTENT ds) zeroExt)"
    and "Heap ds' = (Heap ds)(GhostAddr (Heap ds) (CellData ds) (NextAddr ds) :=
         UnsignedCharArray (MarkFrom DUPLICATECELL
            (map (CellDist (InflateUpper (DATA_EXTENT ds) zeroExt))
                 (ExtentCells (InflateUpper (DATA_EXTENT ds) (DATA_EXTENT ds))))
            (GhostOld (Heap ds) (CellData ds) (StructuredGetNumberOfCells (DATA_EXTENT ds))) 0))"
    and "GetGhostArray (Heap ds') (CellData ds') = Some (GhostAddr (Heap ds) (CellData ds) (NextAddr ds))"
    and "PointData ds' = PointData ds"
proof -
  let ?e = "DATA_EXTENT ds"
  have rc: "StructuredGetNumberOfCells ?e
      \<le> length (GhostOld (Heap ds) (CellData ds) (StructuredGetNumberOfCells ?e))"
    using room by (simp add: GhostRoom_def)
  from GhostCells_step[OF le lz rc] obtain ds' where
    gc: "GhostCells ?e zeroExt ds = Some (ds', InflateUpper ?e zeroExt)"
    and h2: "Heap ds' = (Heap ds)(GhostAddr (Heap ds) (CellData ds) (NextAddr ds) :=
         UnsignedCharArray (MarkFrom DUPLICATECELL
            (map (CellDist (InflateUpper ?e zeroExt)) (ExtentCells (InflateUpper ?e ?e)))
            (GhostOld (Heap ds) (CellData ds) (StructuredGetNumberOfCells ?e)) 0))"
    and g2: "GetGhostArray (Heap ds') (CellData ds') = Some (GhostAddr (Heap ds) (CellData ds) (NextAddr ds))"
    and p2: "PointData ds' = PointData ds"
    by blast
  have r: "GenerateGhostArray zeroExt True ds = Some (ds', InflateUpper ?e zeroExt)"
    using gc by (simp add: GenerateGhostArray_run[OF le lz kind ne])
  note f = r h2 g2 p2
  show ?thesis by (rule that) (rule f)+
qed

lemma GhostAttached_fresh:
  assumes "GetGhostArray h fd = None" "bound \<le> fresh"
    and "h' (GhostAddr h fd fresh) = UnsignedCharArray (MarkFrom flag ds (GhostOld h fd n) 0)"
  shows "GhostAttached flag n None bound h' (Some (GhostAddr h fd fresh))"
  using assms by (simp add: GhostAttached_def GhostAddr_def GhostOld_def fresh_entries)

lemma GhostAttached_old:
  assumes "GetGhostArray h fd = Some c"
  shows "GhostAttached flag n (Some c) bound h' (Some (GhostAddr h fd fresh))"
  using assms by (simp add: GhostAttached_def GhostAddr_def)

text \<open>
  C7. For a structured data set whose extent differs from the zero extent and whose
  arrays are allocated objects, \<^verbatim>\<open>GenerateGhostArray\<close> returns when the ghost arrays that
  exist have room for the extent. Every array that existed keeps its length and every
  entry keeps the bits it had. A cell ghost array that was there is still the array
  under the reserved name; where there was none, a new array with one tuple per cell,
  zeros with \<^verbatim>\<open>DUPLICATECELL\<close> OR-ed in, is attached under the reserved name. The same
  holds of the point ghost array unless only the cells are asked for, when the point
  data are left as they were.
\<close>

theorem GenerateGhostArray_creates_and_keeps:
  assumes kind: "ExtentKind ds = VTK_3D_EXTENT"
    and le: "length (DATA_EXTENT ds) = 6" and lz: "length zeroExt = 6"
    and ne: "DATA_EXTENT ds \<noteq> zeroExt"
    and al: "Allocated ds"
    and room: "GhostRoom cellOnly ds"
  shows "\<exists>ds' z'. GenerateGhostArray zeroExt cellOnly ds = Some (ds', z')
     \<and> HeapKept (NextAddr ds) (Heap ds) (Heap ds')
     \<and> GhostAttached DUPLICATECELL (StructuredGetNumberOfCells (DATA_EXTENT ds))
          (GetGhostArray (Heap ds) (CellData ds)) (NextAddr ds) (Heap ds')
          (GetGhostArray (Heap ds') (CellData ds'))
     \<and> (if cellOnly then PointData ds' = PointData ds
         else GhostAttached DUPLICATEPOINT (StructuredGetNumberOfPoints (DATA_EXTENT ds))
                (GetGhostArray (Heap ds) (PointData ds)) (NextAddr ds) (Heap ds')
                (GetGhostArray (Heap ds') (PointData ds')))"
proof (cases cellOnly)
  case True
  obtain ds' :: vtkDataSet where
    r: "GenerateGhostArray zeroExt True ds = Some (ds', InflateUpper (DATA_EXTENT ds) zeroExt)"
    and h2: "Heap ds' = (Heap ds)(GhostAddr (Heap ds) (CellData ds) (NextAddr ds) :=
         UnsignedCharArray (MarkFrom DUPLICATECELL
            (map (CellDist (InflateUpper (DATA_EXTENT ds) zeroExt))
                 (ExtentCells (InflateUpper (DATA_EXTENT ds) (DATA_EXTENT ds))))
            (GhostOld (Heap ds) (CellData ds) (StructuredGetNumberOfCells (DATA_EXTENT ds))) 0))"
    and g2: "GetGhostArray (Heap ds') (CellData ds') = Some (GhostAddr (Heap ds) (CellData ds) (NextAddr ds))"
    and p2: "PointData ds' = PointData ds"
    using room True by (auto intro: GenerateGhostArray_cells_only[OF kind le lz ne])
  have k: "HeapKept (NextAddr ds) (Heap ds) (Heap ds')"
    unfolding h2 by (rule HeapKept_step) simp
  have a: "GhostAttached DUPLICATECELL (StructuredGetNumberOfCells (DATA_EXTENT ds))
          (GetGhostArray (Heap ds) (CellData ds)) (NextAddr ds) (Heap ds')
          (GetGhostArray (Heap ds') (CellData ds'))"
  proof (cases "GetGhostArray (Heap ds) (CellData ds)")
    case None
    show ?thesis unfolding g2 None
      by (rule GhostAttached_fresh[OF None]) (simp_all add: h2)
  next
    case (Some c)
    show ?thesis unfolding g2 Some by (rule GhostAttached_old[OF Some])
  qed
  show ?thesis using r k a p2 True by auto
next
  case False
  let ?e = "DATA_EXTENT ds"
  let ?ap = "GhostAddr (Heap ds) (PointData ds) (NextAddr ds)"
  let ?new = "MarkFrom DUPLICATEPOINT (map (PointDist zeroExt) (ExtentPoints ?e))
     (GhostOld (Heap ds) (PointData ds) (StructuredGetNumberOfPoints ?e)) 0"
  have room': "GhostRoom False ds" using room False by simp
  obtain ds1 :: vtkDataSet and ds' :: vtkDataSet where
    r: "GenerateGhostArray zeroExt False ds = Some (ds', InflateUpper (DATA_EXTENT ds) zeroExt)"
    and h1: "Heap ds1 = (Heap ds)(GhostAddr (Heap ds) (PointData ds) (NextAddr ds) :=
         UnsignedCharArray (MarkFrom DUPLICATEPOINT (map (PointDist zeroExt) (ExtentPoints (DATA_EXTENT ds)))
            (GhostOld (Heap ds) (PointData ds) (StructuredGetNumberOfPoints (DATA_EXTENT ds))) 0))"
    and g1: "GetGhostArray (Heap ds1) (PointData ds1) = Some (GhostAddr (Heap ds) (PointData ds) (NextAddr ds))"
    and gc: "GetGhostArray (Heap ds1) (CellData ds) = GetGhostArray (Heap ds) (CellData ds)"
    and n1: "NextAddr ds1 = (if GetGhostArray (Heap ds) (PointData ds) = None then NextAddr ds + 1 else NextAddr ds)"
    and h2: "Heap ds' = (Heap ds1)(GhostAddr (Heap ds1) (CellData ds) (NextAddr ds1) :=
         UnsignedCharArray (MarkFrom DUPLICATECELL
            (map (CellDist (InflateUpper (DATA_EXTENT ds) zeroExt))
                 (ExtentCells (InflateUpper (DATA_EXTENT ds) (DATA_EXTENT ds))))
            (GhostOld (Heap ds1) (CellData ds) (StructuredGetNumberOfCells (DATA_EXTENT ds))) 0))"
    and g2: "GetGhostArray (Heap ds') (CellData ds') = Some (GhostAddr (Heap ds1) (CellData ds) (NextAddr ds1))"
    and p2: "PointData ds' = PointData ds1"
    by (rule GenerateGhostArray_points_cells[OF kind le lz ne al room'])
  let ?ac = "GhostAddr (Heap ds1) (CellData ds) (NextAddr ds1)"
  have n1': "NextAddr ds \<le> NextAddr ds1" using n1 by simp
  have k1: "HeapKept (NextAddr ds) (Heap ds) (Heap ds1)"
    unfolding h1 by (rule HeapKept_step) simp
  have k2: "HeapKept (NextAddr ds) (Heap ds1) (Heap ds')"
    unfolding h2 by (rule HeapKept_step) (rule n1')
  have k: "HeapKept (NextAddr ds) (Heap ds) (Heap ds')"
    using k1 k2 by (rule HeapKept_trans)
  have ac: "GhostAttached DUPLICATECELL (StructuredGetNumberOfCells ?e)
          (GetGhostArray (Heap ds) (CellData ds)) (NextAddr ds) (Heap ds')
          (GetGhostArray (Heap ds') (CellData ds'))"
  proof (cases "GetGhostArray (Heap ds) (CellData ds)")
    case None
    then have n: "GetGhostArray (Heap ds1) (CellData ds) = None" using gc by simp
    show ?thesis unfolding g2 None
      by (rule GhostAttached_fresh[OF n n1']) (simp add: h2)
  next
    case (Some c)
    then have s: "GetGhostArray (Heap ds1) (CellData ds) = Some c" using gc by simp
    show ?thesis unfolding g2 Some by (rule GhostAttached_old[OF s])
  qed
  have "GetArray (Arrays (PointData ds1)) GhostArrayName = Some ?ap"
    using g1 by (rule GetGhostArray_Some_GetArray)
  then have gp: "GetGhostArray (Heap ds') (PointData ds') = Some ?ap"
    using g1 by (simp add: h2 p2 GetGhostArray_upd)
  have ap: "GhostAttached DUPLICATEPOINT (StructuredGetNumberOfPoints ?e)
          (GetGhostArray (Heap ds) (PointData ds)) (NextAddr ds) (Heap ds')
          (GetGhostArray (Heap ds') (PointData ds'))"
  proof (cases "GetGhostArray (Heap ds) (PointData ds)")
    case (Some p)
    show ?thesis unfolding gp Some by (rule GhostAttached_old[OF Some])
  next
    case None
    then have apn: "?ap = NextAddr ds" by (simp add: GhostAddr_def)
    have cd: "list_all (\<lambda>na. snd na < NextAddr ds) (Arrays (CellData ds))"
      using al by (simp add: Allocated_def)
    have "?ac \<noteq> ?ap"
    proof (cases "GetGhostArray (Heap ds) (CellData ds)")
      case N2: None
      then show ?thesis using apn n1 None gc by (simp add: GhostAddr_def)
    next
      case (Some c)
      then have "GhostAddr (Heap ds) (CellData ds) (NextAddr ds1) < NextAddr ds"
        using cd by (intro GhostAddr_less) simp_all
      then show ?thesis using apn gc by (simp add: GhostAddr_def)
    qed
    then have "Heap ds' ?ap = UnsignedCharArray ?new" by (simp add: h1 h2)
    then show ?thesis unfolding gp None
      by (intro GhostAttached_fresh[OF None]) simp_all
  qed
  show ?thesis using r k ac ap False by auto
qed

lemma GhostedExample_fields:
  "ExtentKind GhostedExample = VTK_3D_EXTENT" "DATA_EXTENT GhostedExample = [0, 4, 0, 4, 0, 0]"
  "NextAddr GhostedExample = 1" "Arrays (PointData GhostedExample) = [(Some GhostArrayName, 0)]"
  "Arrays (CellData GhostedExample) = []"
  "Heap GhostedExample 0 = UnsignedCharArray (replicate 25 2)"
  by (simp_all add: GhostedExample_def GridExample_def NewDataSet_def NewFieldData_def)

lemma GhostedExample_ghosts:
  "GetGhostArray (Heap GhostedExample) (PointData GhostedExample) = Some 0"
  "GetGhostArray (Heap GhostedExample) (CellData GhostedExample) = None"
  by (simp_all add: GetGhostArray_def DownCastUChar_def GhostedExample_fields)

lemma GhostedExample_hyps:
  "Allocated GhostedExample" "GhostRoom False GhostedExample"
  by (simp_all add: Allocated_def GhostRoom_def GhostOld_def GhostedExample_fields GhostedExample_ghosts
      StructuredGetNumberOfPoints_def)

lemma GhostedExample_run:
  "map_option (\<lambda>dz. (UCharValues (Heap (fst dz) 0), UCharValues (Heap (fst dz) 1)))
     (GenerateGhostArray [1, 3, 1, 3, 0, 0] False GhostedExample)
   = Some ([3, 3, 3, 3, 3,  3, 2, 2, 2, 3,  3, 2, 2, 2, 3,  3, 2, 2, 2, 3,  3, 3, 3, 3, 3],
           [1, 1, 1, 1,  1, 0, 0, 1,  1, 0, 0, 1,  1, 1, 1, 1])"
  by code_simp

theorem GenerateGhostArray_creates_and_keeps_witness:
  "(\<exists>ds' z'. GenerateGhostArray [1, 3, 1, 3, 0, 0] False GhostedExample = Some (ds', z')
      \<and> HeapKept 1 (Heap GhostedExample) (Heap ds')
      \<and> GhostAttached DUPLICATECELL 16 None 1 (Heap ds') (GetGhostArray (Heap ds') (CellData ds'))
      \<and> GhostAttached DUPLICATEPOINT 25 (Some 0) 1 (Heap ds') (GetGhostArray (Heap ds') (PointData ds')))
   \<and> (\<exists>ds' z'. GenerateGhostArray [1, 3, 1, 3, 0, 0] True GridExample = Some (ds', z')
      \<and> HeapKept 0 (Heap GridExample) (Heap ds')
      \<and> GhostAttached DUPLICATECELL 16 None 0 (Heap ds') (GetGhostArray (Heap ds') (CellData ds'))
      \<and> PointData ds' = PointData GridExample)
   \<and> map_option (\<lambda>dz. (UCharValues (Heap (fst dz) 0), UCharValues (Heap (fst dz) 1)))
        (GenerateGhostArray [1, 3, 1, 3, 0, 0] False GhostedExample)
      = Some ([3, 3, 3, 3, 3,  3, 2, 2, 2, 3,  3, 2, 2, 2, 3,  3, 2, 2, 2, 3,  3, 3, 3, 3, 3],
              [1, 1, 1, 1,  1, 0, 0, 1,  1, 0, 0, 1,  1, 1, 1, 1])"
proof -
  have l: "length (DATA_EXTENT GhostedExample) = 6" "length [1, 3, 1, 3, 0, 0 :: int] = 6"
    "length (DATA_EXTENT GridExample) = 6"
    by (simp_all add: GhostedExample_fields GridExample_fields)
  have ne: "DATA_EXTENT GhostedExample \<noteq> [1, 3, 1, 3, 0, 0]" "DATA_EXTENT GridExample \<noteq> [1, 3, 1, 3, 0, 0]"
    by (simp_all add: GhostedExample_fields GridExample_fields)
  have n: "StructuredGetNumberOfCells [0, 4, 0, 4, 0, 0] = 16" "StructuredGetNumberOfPoints [0, 4, 0, 4, 0, 0] = 25"
    by (simp_all add: StructuredGetNumberOfCells_def StructuredGetNumberOfPoints_def)
  have 1: "\<exists>ds' z'. GenerateGhostArray [1, 3, 1, 3, 0, 0] False GhostedExample = Some (ds', z')
      \<and> HeapKept 1 (Heap GhostedExample) (Heap ds')
      \<and> GhostAttached DUPLICATECELL 16 None 1 (Heap ds') (GetGhostArray (Heap ds') (CellData ds'))
      \<and> GhostAttached DUPLICATEPOINT 25 (Some 0) 1 (Heap ds') (GetGhostArray (Heap ds') (PointData ds'))"
    using GenerateGhostArray_creates_and_keeps
      [OF GhostedExample_fields(1) l(1,2) ne(1) GhostedExample_hyps(1,2)]
    by (simp add: GhostedExample_fields(2,3) GhostedExample_ghosts n)
  have 2: "\<exists>ds' z'. GenerateGhostArray [1, 3, 1, 3, 0, 0] True GridExample = Some (ds', z')
      \<and> HeapKept 0 (Heap GridExample) (Heap ds')
      \<and> GhostAttached DUPLICATECELL 16 None 0 (Heap ds') (GetGhostArray (Heap ds') (CellData ds'))
      \<and> PointData ds' = PointData GridExample"
    using GenerateGhostArray_creates_and_keeps
      [OF GridExample_fields(1) l(3,2) ne(2) GridExample_hyps(1,3)]
    by (simp add: GridExample_fields(2,3) GridExample_ghosts n)
  from 1 2 GhostedExample_run show ?thesis by (intro conjI)
qed

end
